theory Spec2Isabelle
  imports Main "HOL-Library.Signed_Division"
begin

section \<open>Common types\<close>

text \<open>
  gRPC status codes other than OK (OK is the absence of an error), and Go \<open>error\<close> values.
  A Go result of type \<open>error\<close> is an \<open>error option\<close> (\<open>None\<close> is \<open>nil\<close>); a result
  \<open>(T, error)\<close> is \<open>error + T\<close>.
\<close>

datatype code = Canceled | Unknown | InvalidArgument | DeadlineExceeded | NotFound
  | ResourceExhausted | Unimplemented | Internal | Unavailable

datatype error =
    EOF                      \<comment> \<open>\<open>io.EOF\<close>\<close>
  | New string               \<comment> \<open>\<open>errors.New(msg)\<close>\<close>
  | Errorf string int        \<comment> \<open>\<open>errors.Errorf(fmt.Sprintf(format, arg))\<close>, one \<open>%d\<close>\<close>
  | Wrap error string        \<comment> \<open>\<open>errors.Wrap(err, msg)\<close>\<close>
  | RpcError code string     \<comment> \<open>an error carrying a gRPC status\<close>
  | LibError string          \<comment> \<open>any other error of a library\<close>

text \<open>What a Go call does: it returns, it panics, or it blocks forever.\<close>

datatype 'a outcome = Returned 'a | Panicked string | Blocked

text \<open>\<open>time.Duration\<close>: a count of nanoseconds.\<close>

type_synonym duration = int

datatype json = JNull | JBool bool | JNum int | JStr string
  | JArr "json list" | JObj "(string \<times> json) list"

section \<open>Package config\<close>

record Config =
  cfgProto :: string
  cfgCall :: string
  cfgCert :: string
  cfgN :: int
  cfgC :: int
  cfgQPS :: int
  cfgZ :: duration
  cfgTimeout :: int
  cfgData :: "(string \<times> json) list option"
  cfgDataPath :: string
  cfgMetadata :: "(string \<times> string) list option"
  cfgMetadataPath :: string
  cfgFormat :: string
  cfgOutput :: string
  cfgHost :: string
  cfgCPUs :: int
  cfgImportPaths :: "string list"

text \<open>\<open>&Config{}\<close>: every field at its zero value.\<close>

definition Config0 :: Config where
  "Config0 = \<lparr> cfgProto = [], cfgCall = [], cfgCert = [], cfgN = 0, cfgC = 0, cfgQPS = 0,
     cfgZ = 0, cfgTimeout = 0, cfgData = None, cfgDataPath = [], cfgMetadata = None,
     cfgMetadataPath = [], cfgFormat = [], cfgOutput = [], cfgHost = [], cfgCPUs = 0,
     cfgImportPaths = [] \<rparr>"

text \<open>
  The anonymous struct of \<open>UnmarshalJSON\<close>: the field \<open>Z string\<close> shadows the field
  \<open>Z time.Duration\<close> of the embedded \<open>*Alias\<close>, so the JSON key \<open>z\<close> is decoded into the
  string and the other keys into the receiver.
\<close>

record aux =
  auxZ :: string
  Alias :: Config

text \<open>
  The Go standard library as the package uses it, taken as parameters:
  \<^item> \<open>TrimSpace\<close> is \<open>strings.TrimSpace\<close>, \<open>Ext\<close> is \<open>filepath.Ext\<close>;
  \<^item> \<open>GOMAXPROCS\<close> is the value of \<open>runtime.GOMAXPROCS(-1)\<close>;
  \<^item> \<open>ParseDuration\<close> is \<open>time.ParseDuration\<close>, whose every error return is
    \<open>return 0, err\<close>: the sum keeps the error and \<open>c.Z, _ = ...\<close> stores 0 then;
  \<^item> \<open>json_Unmarshal data c\<close> is \<open>json.Unmarshal(data, &aux)\<close> with \<open>aux.Alias\<close> pointing
    to the receiver \<open>c\<close>: an error, or the decoded struct; \<open>Inr None\<close> is \<open>aux\<close> set to
    \<open>nil\<close>, which the decoder does for the JSON literal \<open>null\<close>.
\<close>

record golib =
  TrimSpace :: "string \<Rightarrow> string"
  Ext :: "string \<Rightarrow> string"
  GOMAXPROCS :: int
  ParseDuration :: "string \<Rightarrow> error + duration"
  json_Unmarshal :: "string \<Rightarrow> Config \<Rightarrow> error + aux option"

definition Default :: "golib \<Rightarrow> Config \<Rightarrow> Config" where
  "Default lib c =
    (let c1 = (if cfgN c = 0 then c\<lparr>cfgN := 200\<rparr> else c);
         c2 = (if cfgC c1 = 0 then c1\<lparr>cfgC := 50\<rparr> else c1)
     in if cfgCPUs c2 = 0 then c2\<lparr>cfgCPUs := GOMAXPROCS lib\<rparr> else c2)"

definition requiredString :: "golib \<Rightarrow> string \<Rightarrow> error option" where
  "requiredString lib s = (if TrimSpace lib s = [] then Some (New ''is required'') else None)"

definition minValue :: "int \<Rightarrow> int \<Rightarrow> error option" where
  "minValue v m = (if v < m then Some (Errorf ''must be at least %d'' m) else None)"

definition Validate :: "golib \<Rightarrow> Config \<Rightarrow> error option" where
  "Validate lib c =
    (case requiredString lib (cfgProto c) of
       Some err \<Rightarrow> Some (Wrap err ''proto'')
     | None \<Rightarrow>
    if Ext lib (cfgProto c) \<noteq> ''.proto'' then Some (New ''proto: must have .proto extension'')
    else
    (case requiredString lib (cfgCall c) of
       Some err \<Rightarrow> Some (Wrap err ''call'')
     | None \<Rightarrow>
    (case minValue (cfgN c) 0 of
       Some err \<Rightarrow> Some (Wrap err ''n'')
     | None \<Rightarrow>
    (case minValue (cfgC c) 0 of
       Some err \<Rightarrow> Some (Wrap err ''c'')
     | None \<Rightarrow>
    (case minValue (cfgQPS c) 0 of
       Some err \<Rightarrow> Some (Wrap err ''q'')
     | None \<Rightarrow>
    (case minValue (cfgTimeout c) 0 of
       Some err \<Rightarrow> Some (Wrap err ''t'')
     | None \<Rightarrow>
    (case minValue (cfgCPUs c) 0 of
       Some err \<Rightarrow> Some (Wrap err ''cpus'')
     | None \<Rightarrow>
    if TrimSpace lib (cfgDataPath c) = [] \<and> cfgData c = None
    then Some (New ''data: is required'')
    else None)))))))"

text \<open>
  \<open>UnmarshalJSON\<close>: the receiver as updated, or the decoder's error. The error of
  \<open>time.ParseDuration\<close> is dropped. Dereferencing a nil \<open>aux\<close> panics. (On a decoder error
  the receiver may be partly written; \<open>parseConfig\<close> discards it.)
\<close>

definition UnmarshalJSON :: "golib \<Rightarrow> string \<Rightarrow> Config \<Rightarrow> (error + Config) outcome" where
  "UnmarshalJSON lib data c =
    (case json_Unmarshal lib data c of
       Inl err \<Rightarrow> Returned (Inl err)
     | Inr None \<Rightarrow> Panicked ''nil pointer dereference''
     | Inr (Some a) \<Rightarrow>
         Returned (Inr ((Alias a)\<lparr>cfgZ :=
           (case ParseDuration lib (auxZ a) of Inl _ \<Rightarrow> 0 | Inr d \<Rightarrow> d)\<rparr>)))"

text \<open>
  \<open>parseConfig\<close>: \<open>json.Unmarshal(b, c)\<close> on a \<open>*Config\<close> runs the method above on a fresh
  \<open>Config\<close>.
\<close>

definition parseConfig :: "golib \<Rightarrow> string \<Rightarrow> (error + Config) outcome" where
  "parseConfig lib b =
    (case UnmarshalJSON lib b Config0 of
       Panicked s \<Rightarrow> Panicked s
     | Blocked \<Rightarrow> Blocked
     | Returned (Inl err) \<Rightarrow> Returned (Inl (Wrap err ''parsing json''))
     | Returned (Inr c) \<Rightarrow>
         (let c' = Default lib c in
          case Validate lib c' of
            Some err \<Rightarrow> Returned (Inl (Wrap err ''validating''))
          | None \<Rightarrow> Returned (Inr c')))"

subsection \<open>A sample library, for evaluating the definitions\<close>

definition isSpace :: "char \<Rightarrow> bool" where
  "isSpace c = (c \<in> set [CHR 0x09, CHR 0x0A, CHR 0x0B, CHR 0x0C, CHR 0x0D, CHR '' ''])"

definition asciiTrimSpace :: "string \<Rightarrow> string" where
  "asciiTrimSpace s = rev (dropWhile isSpace (rev (dropWhile isSpace s)))"

text \<open>\<open>filepath.Ext\<close> with the separator \<open>/\<close>: from the last dot of the last element.\<close>

definition unixExt :: "string \<Rightarrow> string" where
  "unixExt path =
    (let base = takeWhile (\<lambda>c. c \<noteq> CHR ''/'') (rev path) in
     if CHR ''.'' \<in> set base then CHR ''.'' # rev (takeWhile (\<lambda>c. c \<noteq> CHR ''.'') base)
     else [])"

definition sampleParseDuration :: "string \<Rightarrow> error + duration" where
  "sampleParseDuration s =
    (if s = ''10s'' then Inr 10000000000
     else if s = ''0'' then Inr 0
     else Inl (LibError ''time: invalid duration''))"

definition sampleConfig :: Config where
  "sampleConfig = Config0\<lparr> cfgProto := ''greeter.proto'', cfgCall := ''helloworld.Greeter.SayHello'',
     cfgData := Some [(''name'', JStr ''Bob'')], cfgHost := ''localhost:50051'' \<rparr>"

text \<open>
  A decoder known at four inputs: a configuration without \<open>n\<close>, \<open>c\<close> and \<open>z\<close>, one with
  \<open>"z": "soon"\<close>, one with \<open>"c": -1\<close>, and \<open>null\<close>.
\<close>

definition sampleUnmarshal :: "string \<Rightarrow> Config \<Rightarrow> error + aux option" where
  "sampleUnmarshal data c =
    (if data = ''plain'' then Inr (Some \<lparr> auxZ = [], Alias = sampleConfig \<rparr>)
     else if data = ''z-soon'' then Inr (Some \<lparr> auxZ = ''soon'', Alias = sampleConfig \<rparr>)
     else if data = ''c-negative''
       then Inr (Some \<lparr> auxZ = [], Alias = sampleConfig\<lparr>cfgC := - 1\<rparr> \<rparr>)
     else if data = ''null'' then Inr None
     else Inl (LibError ''invalid character''))"

definition sampleLib :: golib where
  "sampleLib = \<lparr> TrimSpace = asciiTrimSpace, Ext = unixExt, GOMAXPROCS = 8,
     ParseDuration = sampleParseDuration, json_Unmarshal = sampleUnmarshal \<rparr>"

section \<open>Package ghz: the requester\<close>

subsection \<open>Go integers and channels\<close>

text \<open>Go's \<open>int\<close> on a 64-bit platform: results of arithmetic wrap around.\<close>

definition int64 :: "int \<Rightarrow> int" where
  "int64 x = (x + 2 ^ 63) mod 2 ^ 64 - 2 ^ 63"

text \<open>
  A channel: its capacity, the values buffered and whether it was closed. \<open>make\<close> panics on
  a negative size (and on one too large for memory, which is not modelled). A send panics on
  a closed channel and blocks while the buffer is full; the non-blocking receive of a
  \<open>select\<close> with a \<open>default\<close> branch takes the oldest value if there is one.
\<close>

record 'a chan =
  chCap :: nat
  chBuf :: "'a list"
  chClosed :: bool

definition make_chan :: "int \<Rightarrow> 'a chan outcome" where
  "make_chan n =
    (if n < 0 then Panicked ''makechan: size out of range''
     else Returned \<lparr> chCap = nat n, chBuf = [], chClosed = False \<rparr>)"

definition chan_send :: "'a chan \<Rightarrow> 'a \<Rightarrow> 'a chan outcome" where
  "chan_send ch v =
    (if chClosed ch then Panicked ''send on closed channel''
     else if length (chBuf ch) < chCap ch then Returned (ch\<lparr>chBuf := chBuf ch @ [v]\<rparr>)
     else Blocked)"

definition chan_poll :: "'a chan \<Rightarrow> ('a \<times> 'a chan) option" where
  "chan_poll ch = (case chBuf ch of [] \<Rightarrow> None | v # vs \<Rightarrow> Some (v, ch\<lparr>chBuf := vs\<rparr>))"

subsection \<open>Data\<close>

record Options =
  optHost :: string
  optCert :: string
  optCName :: string
  optN :: int
  optC :: int
  optQPS :: int
  optZ :: duration
  optTimeout :: int
  optDialTimtout :: int
  optKeepaliveTime :: int
  optData :: json
  optMetadata :: "(string \<times> string) list option"
  optInsecure :: bool

definition maxResult :: int where
  "maxResult = 1000000"

record callResult =
  crErr :: "error option"
  crStatus :: string
  crDuration :: duration

text \<open>Of \<open>desc.MethodDescriptor\<close> the requester reads the two streaming flags.\<close>

record MethodDescriptor =
  IsClientStreaming :: bool
  IsServerStreaming :: bool

record Requester =
  rqConfig :: Options
  rqMtd :: MethodDescriptor
  rqData :: string
  rqMetadata :: string

datatype message = Message string

text \<open>
  The calls made on the stub and on a stream, each with what it returned. \<open>InvokeRpc\<close> and
  the three \<open>InvokeRpc...Stream\<close> calls open the RPC.
\<close>

datatype op =
    InvokeRpc "message option" "error option"
  | InvokeRpcClientStream "error option"
  | InvokeRpcServerStream "message option" "error option"
  | InvokeRpcBidiStream "error option"
  | SendMsg message "error option"
  | CloseSend
  | CloseAndReceive
  | RecvMsg "error + message"

text \<open>
  What the peer and the transport do in one RPC: \<open>openErr\<close> is the error of opening it,
  \<open>sendErr k\<close> the error of the \<open>k\<close>-th \<open>SendMsg\<close> (from 0), \<open>incoming\<close> the messages the
  peer sends, \<open>final\<close> the error the RPC ends with (\<open>None\<close> is status OK) and \<open>elapsed\<close>
  its duration. After the peer's messages \<open>RecvMsg\<close> returns \<open>io.EOF\<close> when the status is
  OK and the status error otherwise, as gRPC does; every call carries a deadline, so a stream
  ends.
\<close>

record rpc =
  openErr :: "error option"
  sendErr :: "nat \<Rightarrow> error option"
  incoming :: "message list"
  final :: "error option"
  elapsed :: duration

definition terminal :: "rpc \<Rightarrow> error" where
  "terminal p = (case final p of None \<Rightarrow> EOF | Some e \<Rightarrow> e)"

text \<open>The error of the RPC as the transport reports it when the RPC ends.\<close>

definition rpcEnd :: "rpc \<Rightarrow> error option" where
  "rpcEnd p = (case openErr p of Some e \<Rightarrow> Some e | None \<Rightarrow> final p)"

text \<open>
  What one call meets. The template and payload functions are not part of these sources,
  their results are parameters: \<open>dataResult\<close> is \<open>ctd.executeData(b.data)\<close>, \<open>mdResult\<close> is
  \<open>ctd.executeMetadata(b.metadata)\<close> (a map pointer, possibly nil) and \<open>payloadResult\<close> is
  \<open>createPayloads(dataMap, b.mtd)\<close> (two pointers, possibly nil).
\<close>

record call_env =
  dataResult :: "error + json"
  mdResult :: "error + (string \<times> string) list option"
  payloadResult :: "error + (message option \<times> message list option)"
  peer :: rpc

datatype creds = TLSFromFile string string | TLSFromCert

datatype dialOption = WithInsecure | WithTransportCredentials creds
  | WithKeepaliveParams duration duration | WithStatsHandler

text \<open>
  The surroundings of a run: \<open>strings.TrimSpace\<close>, \<open>credentials.NewClientTLSFromFile\<close>,
  \<open>grpc.DialContext\<close> (by dial timeout, host and options), whether \<open>Stop\<close> is called once the
  run is set up, what each call meets (by its ordinal), and the wall-clock time of the run.
\<close>

record env =
  strings_TrimSpace :: "string \<Rightarrow> string"
  NewClientTLSFromFile :: "string \<Rightarrow> string \<Rightarrow> error option"
  DialContext :: "duration \<Rightarrow> string \<Rightarrow> dialOption list \<Rightarrow> error option"
  stopCalled :: bool
  calls :: "int \<Rightarrow> call_env"
  wallClock :: duration

text \<open>
  What a run does, in order. Workers are numbered; a ticker is named by its position in
  \<open>tickers\<close>.
\<close>

datatype event =
    EvMakeResults nat            \<comment> \<open>\<open>make(chan *callResult, n)\<close>\<close>
  | EvMakeStopCh nat             \<comment> \<open>\<open>make(chan bool, n)\<close>\<close>
  | EvConnect "error option"     \<comment> \<open>\<open>b.connect()\<close> and its error\<close>
  | EvReporterRun                \<comment> \<open>\<open>go b.reporter.Run()\<close>\<close>
  | EvStopCheck nat bool         \<comment> \<open>a worker polled \<open>stopCh\<close>: was there a sentinel\<close>
  | EvTickWait nat nat           \<comment> \<open>a worker received from a ticker\<close>
  | EvMakeRequest nat int        \<comment> \<open>a worker entered \<open>makeRequest\<close>, with the ordinal\<close>
  | EvRPC int "(string \<times> string) list option" "op list"
                                 \<comment> \<open>the RPC of an ordinal: metadata and calls\<close>
  | EvCloseResults               \<comment> \<open>\<open>close(b.results)\<close>\<close>
  | EvFinalize                   \<comment> \<open>\<open>b.reporter.Finalize(total)\<close>\<close>
  | EvConnClose                  \<comment> \<open>the deferred \<open>cc.Close()\<close>\<close>

text \<open>
  The mutable state of a run: the two channels, the call counter, the periods of the tickers
  made by \<open>time.Tick\<close>, the reporter (whether it runs, and the results it has consumed) and
  the events so far.
\<close>

record world =
  results :: "callResult chan"
  stopCh :: "bool chan"
  reqCounter :: int
  tickers :: "duration list"
  reporterRunning :: bool
  details :: "callResult list"
  evlog :: "event list"

text \<open>
  Before \<open>Run\<close> the channels are nil; nothing uses them until \<open>Run\<close> has replaced them.
\<close>

definition world0 :: world where
  "world0 = \<lparr> results = \<lparr> chCap = 0, chBuf = [], chClosed = False \<rparr>,
     stopCh = \<lparr> chCap = 0, chBuf = [], chClosed = False \<rparr>,
     reqCounter = 0, tickers = [], reporterRunning = False, details = [], evlog = [] \<rparr>"

definition logEv :: "event list \<Rightarrow> world \<Rightarrow> world" where
  "logEv es w = w\<lparr>evlog := evlog w @ es\<rparr>"

text \<open>
  Modelled from the spec: the \<open>Report\<close> type is not part of these sources. Of the report,
  the count, the total time and the details are kept.
\<close>

record Report =
  repCount :: nat
  repTotal :: duration
  repDetails :: "callResult list"

subsection \<open>Reporter and stats handler\<close>

text \<open>
  Modelled from the spec: the Aggregator (\<open>Reporter\<close>, with \<open>newReporter\<close>, \<open>Run\<close> and
  \<open>Finalize\<close>) is not part of these sources. It consumes the result channel until it is
  sealed, appends every result to \<open>details\<close>, and finalizes a report whose \<open>count\<close> is the
  number of results. \<open>reporter_step\<close> is one receive of its loop.
\<close>

definition reporter_step :: "world \<Rightarrow> world" where
  "reporter_step w =
    (case chBuf (results w) of
       [] \<Rightarrow> w
     | r # rs \<Rightarrow> w\<lparr>results := (results w)\<lparr>chBuf := rs\<rparr>, details := details w @ [r]\<rparr>)"

text \<open>
  Modelled from the spec: \<open>Finalize\<close> of the Aggregator, not part of these sources. The count
  is the number of results consumed.
\<close>

definition Finalize :: "duration \<Rightarrow> world \<Rightarrow> Report" where
  "Finalize tot w =
    \<lparr> repCount = length (details w), repTotal = tot, repDetails = details w \<rparr>"

text \<open>
  Modelled from the spec: the status of a \<open>CallResult\<close> is the name of the transport-level
  status code, \<open>OK\<close> when the RPC ended without an error.
\<close>

definition codeName :: "code \<Rightarrow> string" where
  "codeName c =
    (case c of Canceled \<Rightarrow> ''Canceled'' | Unknown \<Rightarrow> ''Unknown''
     | InvalidArgument \<Rightarrow> ''InvalidArgument'' | DeadlineExceeded \<Rightarrow> ''DeadlineExceeded''
     | NotFound \<Rightarrow> ''NotFound'' | ResourceExhausted \<Rightarrow> ''ResourceExhausted''
     | Unimplemented \<Rightarrow> ''Unimplemented'' | Internal \<Rightarrow> ''Internal''
     | Unavailable \<Rightarrow> ''Unavailable'')"

definition statusName :: "error option \<Rightarrow> string" where
  "statusName e =
    (case e of None \<Rightarrow> ''OK'' | Some (RpcError c msg) \<Rightarrow> codeName c | Some _ \<Rightarrow> ''Unknown'')"

text \<open>
  Modelled from the spec: the Stats Handler (\<open>statsHandler\<close>) is not part of these sources.
  When an RPC ends it sends exactly one \<open>callResult\<close>, with the duration, the name of the
  status code and the error, to the result channel; the send blocks while the channel is
  full. A blocked send goes through once the reporter, if it runs, has received: from the
  buffer, or from the sender itself when the channel has no buffer.
\<close>

definition statsHandler_End :: "rpc \<Rightarrow> world \<Rightarrow> unit outcome \<times> world" where
  "statsHandler_End p w =
    (let r = \<lparr> crErr = rpcEnd p, crStatus = statusName (rpcEnd p), crDuration = elapsed p \<rparr> in
     case chan_send (results w) r of
       Returned ch \<Rightarrow> (Returned (), w\<lparr>results := ch\<rparr>)
     | Panicked s \<Rightarrow> (Panicked s, w)
     | Blocked \<Rightarrow>
         if \<not> reporterRunning w then (Blocked, w)
         else if chCap (results w) = 0 then (Returned (), w\<lparr>details := details w @ [r]\<rparr>)
         else (let w1 = reporter_step w in
               (Returned (), w1\<lparr>results := (results w1)\<lparr>chBuf := chBuf (results w1) @ [r]\<rparr>\<rparr>)))"

subsection \<open>The four kinds of call\<close>

text \<open>
  The receive loop of \<open>makeServerStreamingRequest\<close> and \<open>makeBidiRequest\<close>: the \<open>err\<close>
  assigned inside the loop is a new variable, so the loop ends at the \<open>break\<close>, which any
  error of \<open>RecvMsg\<close> reaches.
\<close>

fun recvLoop :: "rpc \<Rightarrow> message list \<Rightarrow> op list" where
  "recvLoop p [] = [RecvMsg (Inl (terminal p))]"
| "recvLoop p (m # ms) = RecvMsg (Inr m) # recvLoop p ms"

definition makeServerStreamingRequest :: "rpc \<Rightarrow> message option \<Rightarrow> op list" where
  "makeServerStreamingRequest p input =
    InvokeRpcServerStream input (openErr p) #
      (if openErr p = None then recvLoop p (incoming p) else [])"

text \<open>
  The send loop of \<open>makeBidiRequest\<close> from \<open>counter = k\<close>, on the messages not yet sent: the
  calls made and the value of \<open>err\<close> after the loop.
\<close>

fun bidiSendLoop :: "rpc \<Rightarrow> nat \<Rightarrow> message list \<Rightarrow> op list \<times> error option" where
  "bidiSendLoop p k [] = ([CloseSend], None)"
| "bidiSendLoop p k (m # ms) =
    (case sendErr p k of
       Some e \<Rightarrow> ([SendMsg m (Some e)], Some e)
     | None \<Rightarrow> (let (ops, err) = bidiSendLoop p (Suc k) ms in (SendMsg m None # ops, err)))"

text \<open>\<open>*input\<close> is read before \<open>input\<close> is compared with nil: a nil \<open>input\<close> panics.\<close>

definition makeBidiRequest :: "rpc \<Rightarrow> message list option \<Rightarrow> op list outcome" where
  "makeBidiRequest p input =
    (case openErr p of
       Some e \<Rightarrow> Returned [InvokeRpcBidiStream (Some e)]
     | None \<Rightarrow>
        (case input of
           None \<Rightarrow> Panicked ''nil pointer dereference''
         | Some streamInput \<Rightarrow>
            (let (ops, err) = bidiSendLoop p 0 streamInput in
             Returned (InvokeRpcBidiStream None # ops @
               (if err = None then recvLoop p (incoming p) else [])))))"

fun clientSendLoop :: "rpc \<Rightarrow> nat \<Rightarrow> message list \<Rightarrow> op list" where
  "clientSendLoop p k [] = [CloseAndReceive]"
| "clientSendLoop p k (m # ms) =
    (case sendErr p k of
       None \<Rightarrow> SendMsg m None # clientSendLoop p (Suc k) ms
     | Some e \<Rightarrow> SendMsg m (Some e) # (if e = EOF then [CloseAndReceive] else []))"

definition makeClientStreamingRequest :: "rpc \<Rightarrow> message list option \<Rightarrow> op list outcome" where
  "makeClientStreamingRequest p input =
    (case openErr p of
       Some e \<Rightarrow> Returned [InvokeRpcClientStream (Some e)]
     | None \<Rightarrow>
        (case input of
           None \<Rightarrow> Panicked ''nil pointer dereference''
         | Some streamInput \<Rightarrow>
            Returned (InvokeRpcClientStream None # clientSendLoop p 0 streamInput)))"

subsection \<open>The call orchestrator\<close>

text \<open>
  \<open>makeRequest\<close>, by the worker that calls it. The counter is an \<open>int64\<close>. The context with
  its timeout and the \<open>cancel\<close> functions do not show in what is modelled. The stats handler
  hears of an RPC that was opened.
\<close>

definition makeRequest :: "Requester \<Rightarrow> env \<Rightarrow> nat \<Rightarrow> world \<Rightarrow> unit outcome \<times> world" where
  "makeRequest b ev wid w =
    (let reqNum = int64 (reqCounter w + 1);
         w1 = logEv [EvMakeRequest wid reqNum] (w\<lparr>reqCounter := reqNum\<rparr>);
         ce = calls ev reqNum
     in
     case dataResult ce of
       Inl err \<Rightarrow> (Returned (), w1)
     | Inr dataMap \<Rightarrow>
    (case mdResult ce of
       Inl err \<Rightarrow> (Returned (), w1)
     | Inr mdMap \<Rightarrow>
    (let reqMD = (case mdMap of None \<Rightarrow> None
                  | Some md \<Rightarrow> if 0 < length md then Some md else None)
     in
     case payloadResult ce of
       Inl err \<Rightarrow> (Returned (), w1)
     | Inr (input, streamInput) \<Rightarrow>
    (case (if IsClientStreaming (rqMtd b) \<and> IsServerStreaming (rqMtd b)
             then makeBidiRequest (peer ce) streamInput
           else if IsClientStreaming (rqMtd b)
             then makeClientStreamingRequest (peer ce) streamInput
           else if IsServerStreaming (rqMtd b)
             then Returned (makeServerStreamingRequest (peer ce) input)
           else Returned [InvokeRpc input (rpcEnd (peer ce))]) of
       Panicked s \<Rightarrow> (Panicked s, w1)
     | Blocked \<Rightarrow> (Blocked, w1)
     | Returned ops \<Rightarrow> statsHandler_End (peer ce) (logEv [EvRPC reqNum reqMD ops] w1)))))"

subsection \<open>Workers\<close>

text \<open>\<open>time.Tick d\<close> returns nil when \<open>d \<le> 0\<close> and the channel of a new ticker otherwise.\<close>

definition time_Tick :: "duration \<Rightarrow> world \<Rightarrow> nat option \<times> world" where
  "time_Tick d w =
    (if d \<le> 0 then (None, w)
     else (Some (length (tickers w)), w\<lparr>tickers := tickers w @ [d]\<rparr>))"

text \<open>
  The loop of \<open>runWorker\<close> with \<open>n - i\<close> iterations left. A receive from a nil channel
  blocks forever.
\<close>

fun workerLoop ::
  "Requester \<Rightarrow> env \<Rightarrow> nat \<Rightarrow> nat option \<Rightarrow> nat \<Rightarrow> world \<Rightarrow> unit outcome \<times> world" where
  "workerLoop b ev wid throttle 0 w = (Returned (), w)"
| "workerLoop b ev wid throttle (Suc k) w =
    (case chan_poll (stopCh w) of
       Some (s, ch) \<Rightarrow> (Returned (), logEv [EvStopCheck wid True] (w\<lparr>stopCh := ch\<rparr>))
     | None \<Rightarrow>
        (let w1 = logEv [EvStopCheck wid False] w in
         if 0 < optQPS (rqConfig b) then
           (case throttle of
              None \<Rightarrow> (Blocked, w1)
            | Some t \<Rightarrow>
               (case makeRequest b ev wid (logEv [EvTickWait wid t] w1) of
                  (Returned u, w2) \<Rightarrow> workerLoop b ev wid throttle k w2
                | (Panicked s, w2) \<Rightarrow> (Panicked s, w2)
                | (Blocked, w2) \<Rightarrow> (Blocked, w2)))
         else
           (case makeRequest b ev wid w1 of
              (Returned u, w2) \<Rightarrow> workerLoop b ev wid throttle k w2
            | (Panicked s, w2) \<Rightarrow> (Panicked s, w2)
            | (Blocked, w2) \<Rightarrow> (Blocked, w2))))"

text \<open>
  \<open>runWorker\<close>: the period is \<open>1e6 / QPS\<close> microseconds, an integer division, in
  nanoseconds; with \<open>QPS > 0\<close> neither the division nor the product overflows.
\<close>

definition runWorker :: "Requester \<Rightarrow> env \<Rightarrow> nat \<Rightarrow> int \<Rightarrow> world \<Rightarrow> unit outcome \<times> world" where
  "runWorker b ev wid n w =
    (let (throttle, w1) =
           (if 0 < optQPS (rqConfig b)
            then time_Tick ((1000000 sdiv optQPS (rqConfig b)) * 1000) w
            else (None, w))
     in workerLoop b ev wid throttle (nat n) w1)"

text \<open>
  The goroutines of \<open>runWorkers\<close>, run one after the other on the shared state. A panic
  ends the program; a worker that blocks forever leaves the others running and keeps
  \<open>wg.Wait()\<close> from returning.
\<close>

fun spawn :: "Requester \<Rightarrow> env \<Rightarrow> nat list \<Rightarrow> world \<Rightarrow> unit outcome \<times> world" where
  "spawn b ev [] w = (Returned (), w)"
| "spawn b ev (i # is) w =
    (case runWorker b ev i (optN (rqConfig b) sdiv optC (rqConfig b)) w of
       (Returned u, w1) \<Rightarrow> spawn b ev is w1
     | (Panicked s, w1) \<Rightarrow> (Panicked s, w1)
     | (Blocked, w1) \<Rightarrow>
        (case spawn b ev is w1 of
           (Panicked s, w2) \<Rightarrow> (Panicked s, w2)
         | (r, w2) \<Rightarrow> (Blocked, w2)))"

definition runWorkers :: "Requester \<Rightarrow> env \<Rightarrow> world \<Rightarrow> unit outcome \<times> world" where
  "runWorkers b ev w =
    (if optC (rqConfig b) < 0 then (Panicked ''sync: negative WaitGroup counter'', w)
     else spawn b ev [0 ..< nat (optC (rqConfig b))] w)"

subsection \<open>The driver\<close>

fun stopLoop :: "nat \<Rightarrow> world \<Rightarrow> unit outcome \<times> world" where
  "stopLoop 0 w = (Returned (), w)"
| "stopLoop (Suc k) w =
    (case chan_send (stopCh w) True of
       Returned ch \<Rightarrow> stopLoop k (w\<lparr>stopCh := ch\<rparr>)
     | Panicked s \<Rightarrow> (Panicked s, w)
     | Blocked \<Rightarrow> (Blocked, w))"

definition Stop :: "Requester \<Rightarrow> world \<Rightarrow> unit outcome \<times> world" where
  "Stop b w = stopLoop (nat (optC (rqConfig b))) w"

definition createClientCredOption :: "env \<Rightarrow> Options \<Rightarrow> error + dialOption" where
  "createClientCredOption ev config =
    (if optInsecure config then Inr WithInsecure
     else if strings_TrimSpace ev (optCert config) \<noteq> [] then
       (case NewClientTLSFromFile ev (optCert config) (optCName config) of
          Some err \<Rightarrow> Inl err
        | None \<Rightarrow> Inr (WithTransportCredentials (TLSFromFile (optCert config) (optCName config))))
     else Inr (WithTransportCredentials TLSFromCert))"

text \<open>\<open>connect\<close>: the error, or the options the connection was dialled with.\<close>

definition connect :: "Requester \<Rightarrow> env \<Rightarrow> error + dialOption list" where
  "connect b ev =
    (case createClientCredOption ev (rqConfig b) of
       Inl err \<Rightarrow> Inl err
     | Inr credOptions \<Rightarrow>
        (let dialTime = int64 (optDialTimtout (rqConfig b) * 1000000000);
             timeout = int64 (optKeepaliveTime (rqConfig b) * 1000000000);
             opts = [credOptions] @
               (if 0 < optKeepaliveTime (rqConfig b) then [WithKeepaliveParams timeout timeout]
                else []) @ [WithStatsHandler]
         in case DialContext ev dialTime (optHost (rqConfig b)) opts of
              Some err \<Rightarrow> Inl err
            | None \<Rightarrow> Inr opts))"

text \<open>
  \<open>Finish\<close>: closing a closed channel panics, and so does reading \<open>b.reporter.done\<close> of a
  nil reporter. The reporter consumes what is left in the sealed channel and signals done.
\<close>

definition Finish :: "env \<Rightarrow> world \<Rightarrow> Report outcome \<times> world" where
  "Finish ev w =
    (if chClosed (results w) then (Panicked ''close of closed channel'', w)
     else
      (let w1 = logEv [EvCloseResults] (w\<lparr>results := (results w)\<lparr>chClosed := True\<rparr>\<rparr>) in
       if \<not> reporterRunning w1 then (Panicked ''nil pointer dereference'', w1)
       else
        (let w2 = w1\<lparr>results := (results w1)\<lparr>chBuf := []\<rparr>,
                     details := details w1 @ chBuf (results w1),
                     reporterRunning := False\<rparr>
         in (Returned (Finalize (wallClock ev) w2), logEv [EvFinalize] w2))))"

definition min_go :: "int \<Rightarrow> int \<Rightarrow> int" where
  "min_go a b = (if a < b then a else b)"

text \<open>
  \<open>Run\<close> on a new requester: the report and the error it returns, and the state it leaves.
  \<open>Stop\<close>, when called, is called by another goroutine, here before the workers start.
\<close>

definition Run :: "Requester \<Rightarrow> env \<Rightarrow> (Report option \<times> error option) outcome \<times> world" where
  "Run b ev =
    (case make_chan (min_go (int64 (optC (rqConfig b) * 1000)) maxResult) of
       Panicked s \<Rightarrow> (Panicked s, world0)
     | Blocked \<Rightarrow> (Blocked, world0)
     | Returned rs \<Rightarrow>
    (case make_chan (optC (rqConfig b)) of
       Panicked s \<Rightarrow> (Panicked s, logEv [EvMakeResults (chCap rs)] (world0\<lparr>results := rs\<rparr>))
     | Blocked \<Rightarrow> (Blocked, logEv [EvMakeResults (chCap rs)] (world0\<lparr>results := rs\<rparr>))
     | Returned st \<Rightarrow>
    (let w1 = logEv [EvMakeResults (chCap rs), EvMakeStopCh (chCap st)]
                (world0\<lparr>results := rs, stopCh := st\<rparr>)
     in
     case connect b ev of
       Inl err \<Rightarrow> (Returned (None, Some err), logEv [EvConnect (Some err)] w1)
     | Inr cc \<Rightarrow>
        (let w2 = logEv [EvConnect None, EvReporterRun] (w1\<lparr>reporterRunning := True\<rparr>);
             w3 = (if stopCalled ev then snd (Stop b w2) else w2)
         in
         case runWorkers b ev w3 of
           (Panicked s, w4) \<Rightarrow> (Panicked s, w4)
         | (Blocked, w4) \<Rightarrow> (Blocked, w4)
         | (Returned u, w4) \<Rightarrow>
            (case Finish ev w4 of
               (Returned report, w5) \<Rightarrow> (Returned (Some report, None), logEv [EvConnClose] w5)
             | (Panicked s, w5) \<Rightarrow> (Panicked s, logEv [EvConnClose] w5)
             | (Blocked, w5) \<Rightarrow> (Blocked, w5))))))"

subsection \<open>Reading the events\<close>

text \<open>
  The steps of the workers in a run: each worker event without the call ordinal, by the
  worker that made it.
\<close>

datatype step = StopCheck bool | TickWait nat | MakeRequest

fun stepOf :: "event \<Rightarrow> (nat \<times> step) list" where
  "stepOf (EvStopCheck i s) = [(i, StopCheck s)]"
| "stepOf (EvTickWait i t) = [(i, TickWait t)]"
| "stepOf (EvMakeRequest i r) = [(i, MakeRequest)]"
| "stepOf e = []"

definition steps :: "event list \<Rightarrow> (nat \<times> step) list" where
  "steps es = concat (map stepOf es)"

text \<open>A call whose payload template, metadata template or payload messages fail.\<close>

definition prepFails :: "call_env \<Rightarrow> bool" where
  "prepFails ce = (isl (dataResult ce) \<or> isl (mdResult ce) \<or> isl (payloadResult ce))"

text \<open>A call that reads a nil \<open>streamInput\<close> on an open client or bidirectional stream.\<close>

definition nilStreamInput :: "Requester \<Rightarrow> call_env \<Rightarrow> bool" where
  "nilStreamInput b ce =
    (IsClientStreaming (rqMtd b) \<and> \<not> prepFails ce \<and> openErr (peer ce) = None \<and>
     (case payloadResult ce of Inr (input, None) \<Rightarrow> True | _ \<Rightarrow> False))"

text \<open>
  The steps of one full iteration of worker \<open>wid\<close> whose ticker is \<open>throttle\<close>: the stop
  check, the wait when \<open>QPS > 0\<close>, the call.
\<close>

definition iteration :: "Requester \<Rightarrow> nat \<Rightarrow> nat option \<Rightarrow> (nat \<times> step) list" where
  "iteration b wid throttle =
    [(wid, StopCheck False)] @
    (case throttle of
       Some t \<Rightarrow> if 0 < optQPS (rqConfig b) then [(wid, TickWait t)] else []
     | None \<Rightarrow> []) @
    [(wid, MakeRequest)]"

text \<open>The number of times worker \<open>i\<close> has entered \<open>makeRequest\<close>.\<close>

definition requestsBy :: "nat \<Rightarrow> world \<Rightarrow> nat" where
  "requestsBy i w = count_list (steps (evlog w)) (i, MakeRequest)"

subsection \<open>Sample data, for evaluating the definitions\<close>

text \<open>
  A unary method, four calls by two workers, a peer that answers every call with status OK
  after 10 ms, and the state of a run whose channels are made and whose reporter runs.
\<close>

definition sampleOptions :: Options where
  "sampleOptions = \<lparr> optHost = ''localhost:50051'', optCert = [], optCName = [], optN = 4,
     optC = 2, optQPS = 0, optZ = 0, optTimeout = 20, optDialTimtout = 10,
     optKeepaliveTime = 0, optData = JObj [(''name'', JStr ''Bob'')], optMetadata = None,
     optInsecure = True \<rparr>"

definition unary :: MethodDescriptor where
  "unary = \<lparr> IsClientStreaming = False, IsServerStreaming = False \<rparr>"

definition sampleRequester :: Requester where
  "sampleRequester =
    \<lparr> rqConfig = sampleOptions, rqMtd = unary, rqData = ''{}'', rqMetadata = ''null'' \<rparr>"

definition okPeer :: rpc where
  "okPeer = \<lparr> openErr = None, sendErr = (\<lambda>k. None), incoming = [], final = None, elapsed = 10000000 \<rparr>"

definition okCall :: call_env where
  "okCall = \<lparr> dataResult = Inr (JObj [(''name'', JStr ''Bob'')]), mdResult = Inr None,
     payloadResult = Inr (Some (Message ''Bob''), Some [Message ''Bob'']), peer = okPeer \<rparr>"

definition sampleEnv :: env where
  "sampleEnv = \<lparr> strings_TrimSpace = asciiTrimSpace, NewClientTLSFromFile = (\<lambda>c n. None),
     DialContext = (\<lambda>t h os. None), stopCalled = False, calls = (\<lambda>r. okCall),
     wallClock = 1000000000 \<rparr>"

definition qpsRequester :: Requester where
  "qpsRequester = sampleRequester\<lparr>rqConfig := sampleOptions\<lparr>optQPS := 3\<rparr>\<rparr>"

definition fastRequester :: Requester where
  "fastRequester = sampleRequester\<lparr>rqConfig := sampleOptions\<lparr>optQPS := 2000000\<rparr>\<rparr>"

definition oddRequester :: Requester where
  "oddRequester = sampleRequester\<lparr>rqConfig := sampleOptions\<lparr>optN := 5\<rparr>\<rparr>"

definition okResult :: callResult where
  "okResult = \<lparr> crErr = None, crStatus = ''OK'', crDuration = 10000000 \<rparr>"

definition sampleWorld :: world where
  "sampleWorld = world0\<lparr> results := \<lparr> chCap = 2000, chBuf = [], chClosed = False \<rparr>,
     stopCh := \<lparr> chCap = 2, chBuf = [], chClosed = False \<rparr>, reporterRunning := True \<rparr>"

definition stoppedWorld :: world where
  "stoppedWorld = sampleWorld\<lparr> stopCh := \<lparr> chCap = 2, chBuf = [True, True], chClosed = False \<rparr> \<rparr>"

definition failedCall :: call_env where
  "failedCall = okCall\<lparr> dataResult := Inl (LibError ''template: unexpected }'') \<rparr>"

definition dropEnv :: env where
  "dropEnv = sampleEnv\<lparr> calls := (\<lambda>r. if r = 1 then failedCall else okCall) \<rparr>"

definition noDialEnv :: env where
  "noDialEnv = sampleEnv\<lparr> DialContext := (\<lambda>t h os. Some (LibError ''context deadline exceeded'')) \<rparr>"

definition goAwayPeer :: rpc where
  "goAwayPeer = okPeer\<lparr> sendErr := (\<lambda>k. if k = 1 then Some EOF else None),
     final := Some (RpcError Unavailable ''go away'') \<rparr>"

definition streamPeer :: rpc where
  "streamPeer = okPeer\<lparr> incoming := [Message ''a'', Message ''b'', Message ''c''] \<rparr>"

text \<open>A server-streaming method, one call, and a peer that sends three messages.\<close>

definition serverStream :: MethodDescriptor where
  "serverStream = \<lparr> IsClientStreaming = False, IsServerStreaming = True \<rparr>"

definition streamRequester :: Requester where
  "streamRequester =
    sampleRequester\<lparr> rqConfig := sampleOptions\<lparr>optN := 1, optC := 1\<rparr>, rqMtd := serverStream \<rparr>"

definition streamCall :: call_env where
  "streamCall = okCall\<lparr> peer := streamPeer \<rparr>"

definition streamEnv :: env where
  "streamEnv = sampleEnv\<lparr> calls := (\<lambda>r. streamCall) \<rparr>"

section \<open>Properties of package config\<close>

lemma Validate_None_bounds:
  "Validate lib c = None \<Longrightarrow> 0 \<le> cfgN c \<and> 0 \<le> cfgC c \<and> 0 \<le> cfgQPS c \<and> 0 \<le> cfgTimeout c \<and> 0 \<le> cfgCPUs c"
  by (auto simp: Validate_def minValue_def split: option.splits if_splits)

lemma Default_fields:
  "cfgN (Default lib c) = (if cfgN c = 0 then 200 else cfgN c)"
  "cfgC (Default lib c) = (if cfgC c = 0 then 50 else cfgC c)"
  "cfgQPS (Default lib c) = cfgQPS c"
  "cfgTimeout (Default lib c) = cfgTimeout c"
  "cfgCPUs (Default lib c) = (if cfgCPUs c = 0 then GOMAXPROCS lib else cfgCPUs c)"
  "cfgZ (Default lib c) = cfgZ c"
  by (simp_all add: Default_def Let_def)

lemma parseConfig_Returned:
  "parseConfig lib b = Returned (Inr c) \<Longrightarrow> Validate lib c = None \<and> (\<exists>c0. c = Default lib c0)"
  by (auto simp: parseConfig_def UnmarshalJSON_def Let_def split: sum.splits option.splits outcome.splits)

lemma parseConfig_decoded:
  "parseConfig lib b = Returned (Inr c) \<Longrightarrow> json_Unmarshal lib b Config0 = Inr (Some a) \<Longrightarrow>
     c = Default lib ((Alias a)\<lparr>cfgZ := (case ParseDuration lib (auxZ a) of Inl _ \<Rightarrow> 0 | Inr d \<Rightarrow> d)\<rparr>)"
  by (auto simp: parseConfig_def UnmarshalJSON_def Let_def split: sum.splits option.splits outcome.splits)

lemma Validate_negative:
  "cfgC c < 0 \<or> cfgN c < 0 \<or> cfgQPS c < 0 \<or> cfgTimeout c < 0 \<or> cfgCPUs c < 0 \<Longrightarrow>
     \<exists>err. Validate lib (Default lib c) = Some err"
proof -
  assume h: "cfgC c < 0 \<or> cfgN c < 0 \<or> cfgQPS c < 0 \<or> cfgTimeout c < 0 \<or> cfgCPUs c < 0"
  have "Validate lib (Default lib c) \<noteq> None"
  proof
    assume "Validate lib (Default lib c) = None"
    from Validate_None_bounds [OF this] h show False
      by (auto simp: Default_fields split: if_splits)
  qed
  then show ?thesis by blast
qed

text \<open>
  C9. A configuration that \<open>parseConfig\<close> returns has \<open>C \<ge> 1\<close> and \<open>N \<ge> 0\<close>; a decoded
  \<open>c\<close> of 0 (also an absent one, which Go leaves at 0) comes back as 50 and such an \<open>n\<close> as
  200, since \<open>Default\<close> runs before \<open>Validate\<close>; and a negative \<open>c\<close>, \<open>n\<close>, \<open>q\<close>, \<open>t\<close> or
  \<open>cpus\<close> makes \<open>parseConfig\<close> return a validation error.
\<close>

theorem parseConfig_valid:
  "(parseConfig lib b = Returned (Inr c) \<longrightarrow> 1 \<le> cfgC c \<and> 0 \<le> cfgN c) \<and>
   (parseConfig lib b = Returned (Inr c) \<and> json_Unmarshal lib b Config0 = Inr (Some a) \<longrightarrow>
      (cfgC (Alias a) = 0 \<longrightarrow> cfgC c = 50) \<and> (cfgN (Alias a) = 0 \<longrightarrow> cfgN c = 200)) \<and>
   (json_Unmarshal lib b Config0 = Inr (Some a) \<and>
      (cfgC (Alias a) < 0 \<or> cfgN (Alias a) < 0 \<or> cfgQPS (Alias a) < 0 \<or>
       cfgTimeout (Alias a) < 0 \<or> cfgCPUs (Alias a) < 0) \<longrightarrow>
      (\<exists>err. parseConfig lib b = Returned (Inl (Wrap err ''validating''))))"
proof (intro conjI impI)
  assume r: "parseConfig lib b = Returned (Inr c)"
  from parseConfig_Returned [OF r] obtain c0 where
    v: "Validate lib c = None" and c: "c = Default lib c0" by blast
  from Validate_None_bounds [OF v] have "0 \<le> cfgN c" "0 \<le> cfgC c" by simp_all
  moreover have "cfgC c \<noteq> 0" by (simp add: c Default_fields)
  ultimately show "1 \<le> cfgC c" "0 \<le> cfgN c" by simp_all
next
  assume "parseConfig lib b = Returned (Inr c) \<and> json_Unmarshal lib b Config0 = Inr (Some a)"
  then have "c = Default lib ((Alias a)\<lparr>cfgZ := (case ParseDuration lib (auxZ a) of Inl _ \<Rightarrow> 0 | Inr d \<Rightarrow> d)\<rparr>)"
    using parseConfig_decoded by blast
  then show "cfgC (Alias a) = 0 \<Longrightarrow> cfgC c = 50" and "cfgN (Alias a) = 0 \<Longrightarrow> cfgN c = 200"
    by (simp_all add: Default_fields)
next
  assume h: "json_Unmarshal lib b Config0 = Inr (Some a) \<and>
      (cfgC (Alias a) < 0 \<or> cfgN (Alias a) < 0 \<or> cfgQPS (Alias a) < 0 \<or>
       cfgTimeout (Alias a) < 0 \<or> cfgCPUs (Alias a) < 0)"
  let ?c = "(Alias a)\<lparr>cfgZ := (case ParseDuration lib (auxZ a) of Inl _ \<Rightarrow> 0 | Inr d \<Rightarrow> d)\<rparr>"
  from h have "cfgC ?c < 0 \<or> cfgN ?c < 0 \<or> cfgQPS ?c < 0 \<or> cfgTimeout ?c < 0 \<or> cfgCPUs ?c < 0"
    by simp
  from Validate_negative [OF this] obtain err where "Validate lib (Default lib ?c) = Some err" 
    by blast
  with h show "\<exists>err. parseConfig lib b = Returned (Inl (Wrap err ''validating''))"
    by (simp add: parseConfig_def UnmarshalJSON_def Let_def)
qed

lemmas sample_defs = parseConfig_def UnmarshalJSON_def sampleLib_def sampleUnmarshal_def sampleConfig_def Config0_def
     Default_def Validate_def requiredString_def minValue_def asciiTrimSpace_def unixExt_def isSpace_def sampleParseDuration_def Let_def

theorem parseConfig_valid_witness:
  "parseConfig sampleLib ''plain'' = Returned (Inr (sampleConfig\<lparr>cfgN := 200, cfgC := 50, cfgCPUs := 8\<rparr>)) \<and>
   json_Unmarshal sampleLib ''plain'' Config0 = Inr (Some \<lparr> auxZ = [], Alias = sampleConfig \<rparr>) \<and>
   cfgC sampleConfig = 0 \<and> cfgN sampleConfig = 0 \<and>
   1 \<le> cfgC (sampleConfig\<lparr>cfgN := 200, cfgC := 50, cfgCPUs := 8\<rparr>) \<and>
   json_Unmarshal sampleLib ''c-negative'' Config0 = Inr (Some \<lparr> auxZ = [], Alias = sampleConfig\<lparr>cfgC := - 1\<rparr> \<rparr>) \<and>
   (\<exists>err. parseConfig sampleLib ''c-negative'' = Returned (Inl (Wrap err ''validating'')))"
  using parseConfig_valid [of sampleLib "''plain''" "sampleConfig\<lparr>cfgN := 200, cfgC := 50, cfgCPUs := 8\<rparr>" "\<lparr> auxZ = [], Alias = sampleConfig \<rparr>"]
    parseConfig_valid [of sampleLib "''c-negative''" "sampleConfig" "\<lparr> auxZ = [], Alias = sampleConfig\<lparr>cfgC := - 1\<rparr> \<rparr>"]
  by (simp add: sample_defs)

text \<open>
  C10. When the JSON decodes and its \<open>z\<close> is a string that \<open>time.ParseDuration\<close> rejects,
  \<open>UnmarshalJSON\<close> returns no error and sets \<open>Z\<close> to 0; \<open>parseConfig\<close> then never reports a
  parsing error, goes on to \<open>Default\<close> and \<open>Validate\<close> with \<open>Z = 0\<close>, and every configuration it
  returns has \<open>Z = 0\<close>.
\<close>

theorem UnmarshalJSON_bad_z:
  "json_Unmarshal lib data Config0 = Inr (Some a) \<Longrightarrow> ParseDuration lib (auxZ a) = Inl e \<Longrightarrow>
     UnmarshalJSON lib data Config0 = Returned (Inr ((Alias a)\<lparr>cfgZ := 0\<rparr>)) \<and>
     (\<forall>err. parseConfig lib data \<noteq> Returned (Inl (Wrap err ''parsing json''))) \<and>
     (\<forall>c. parseConfig lib data = Returned (Inr c) \<longrightarrow> cfgZ c = 0) \<and>
     parseConfig lib data =
       (case Validate lib (Default lib ((Alias a)\<lparr>cfgZ := 0\<rparr>)) of
          Some err \<Rightarrow> Returned (Inl (Wrap err ''validating''))
        | None \<Rightarrow> Returned (Inr (Default lib ((Alias a)\<lparr>cfgZ := 0\<rparr>))))"
  by (auto simp: parseConfig_def UnmarshalJSON_def Let_def Default_fields split: option.splits)

theorem UnmarshalJSON_bad_z_witness:
  "json_Unmarshal sampleLib ''z-soon'' Config0 = Inr (Some \<lparr> auxZ = ''soon'', Alias = sampleConfig \<rparr>) \<and>
   ParseDuration sampleLib ''soon'' = Inl (LibError ''time: invalid duration'') \<and>
   parseConfig sampleLib ''z-soon'' = Returned (Inr (sampleConfig\<lparr>cfgN := 200, cfgC := 50, cfgZ := 0, cfgCPUs := 8\<rparr>)) \<and>
   parseConfig sampleLib ''z-soon'' = parseConfig sampleLib ''plain''"
  using UnmarshalJSON_bad_z [of sampleLib "''z-soon''" "\<lparr> auxZ = ''soon'', Alias = sampleConfig \<rparr>" "LibError ''time: invalid duration''"]
  by (simp add: sample_defs)

section \<open>Properties of the requester\<close>

subsection \<open>Evaluation and arithmetic\<close>

lemmas sample_ghz_defs = sampleOptions_def unary_def sampleRequester_def okPeer_def okCall_def
  sampleEnv_def qpsRequester_def sampleWorld_def stoppedWorld_def failedCall_def dropEnv_def fastRequester_def oddRequester_def okResult_def
  noDialEnv_def goAwayPeer_def streamPeer_def asciiTrimSpace_def isSpace_def

lemmas eval_defs = make_chan_def min_go_def maxResult_def int64_def connect_def
  createClientCredOption_def runWorkers_def runWorker_def time_Tick_def makeRequest_def
  statsHandler_End_def chan_send_def chan_poll_def reporter_step_def Finish_def Finalize_def
  Stop_def logEv_def world0_def rpcEnd_def statusName_def terminal_def
  makeServerStreamingRequest_def makeBidiRequest_def makeClientStreamingRequest_def
  prepFails_def nilStreamInput_def signed_divide_int_def Let_def upt_rec numeral_nat

lemmas stream_defs = serverStream_def streamRequester_def streamCall_def streamEnv_def

lemma steps_append [simp]: "steps (xs @ ys) = steps xs @ steps ys"
  by (simp add: steps_def)

lemma steps_Nil [simp]: "steps [] = []"
  by (simp add: steps_def)

lemma steps_Cons [simp]: "steps (e # es) = stepOf e @ steps es"
  by (simp add: steps_def)

lemma int64_id: "- (2 ^ 63) \<le> x \<Longrightarrow> x < 2 ^ 63 \<Longrightarrow> int64 x = x"
  by (simp add: int64_def)

lemma sdiv_nonneg: "0 \<le> a \<Longrightarrow> 0 < b \<Longrightarrow> (a::int) sdiv b = a div b"
  by (simp add: signed_divide_int_def sgn_if)

lemma period_pos: "0 < q \<Longrightarrow> q \<le> 1000000 \<Longrightarrow> 0 < (1000000 sdiv q) * (1000::int)"
proof -
  assume q: "0 < q" "q \<le> 1000000"
  then have "0 < 1000000 div q"
    by (simp add: pos_imp_zdiv_pos_iff)
  with q show ?thesis by (simp add: sdiv_nonneg)
qed

lemma period_zero: "1000000 < q \<Longrightarrow> (1000000 sdiv q) * (1000::int) = 0"
  by (simp add: sdiv_nonneg div_pos_pos_trivial)

subsection \<open>What each function leaves unchanged\<close>

text \<open>
  The stats handler touches the result channel and the reporter's list only, and loses no
  result; \<open>makeRequest\<close> logs its entry first and makes no worker step after it; a worker
  waits on its own ticker only.
\<close>

lemma statsHandler_End_frame:
  "statsHandler_End p w = (r, w') \<Longrightarrow>
     stopCh w' = stopCh w \<and> tickers w' = tickers w \<and> reporterRunning w' = reporterRunning w \<and>
     evlog w' = evlog w \<and> reqCounter w' = reqCounter w \<and>
     chCap (results w') = chCap (results w) \<and> chClosed (results w') = chClosed (results w)"
  by (auto simp: statsHandler_End_def chan_send_def reporter_step_def Let_def
      split: if_splits list.splits)

lemma statsHandler_End_returns:
  "reporterRunning w \<Longrightarrow> \<not> chClosed (results w) \<Longrightarrow> fst (statsHandler_End p w) = Returned ()"
  by (simp add: statsHandler_End_def chan_send_def Let_def)

lemma statsHandler_End_keeps:
  "statsHandler_End p w = (Returned u, w') \<Longrightarrow>
   length (chBuf (results w)) \<le> chCap (results w) \<Longrightarrow>
     length (chBuf (results w')) \<le> chCap (results w') \<and>
     details w' @ chBuf (results w') =
       details w @ chBuf (results w) @
         [\<lparr> crErr = rpcEnd p, crStatus = statusName (rpcEnd p), crDuration = elapsed p \<rparr>]"
  by (auto simp: statsHandler_End_def chan_send_def reporter_step_def Let_def
      split: if_splits list.splits)

lemma makeRequest_frame:
  "makeRequest b ev wid w = (r, w') \<Longrightarrow>
     stopCh w' = stopCh w \<and> tickers w' = tickers w \<and> reporterRunning w' = reporterRunning w \<and>
     chCap (results w') = chCap (results w) \<and> chClosed (results w') = chClosed (results w) \<and>
     reqCounter w' = int64 (reqCounter w + 1) \<and>
     (\<exists>rest. evlog w' = evlog w @ EvMakeRequest wid (int64 (reqCounter w + 1)) # rest \<and>
        steps rest = [] \<and> (\<forall>i t. EvTickWait i t \<notin> set rest))"
  by (auto simp: makeRequest_def logEv_def Let_def
      split: sum.splits prod.splits outcome.splits if_splits dest!: statsHandler_End_frame)

lemma makeRequest_returns:
  "reporterRunning w \<Longrightarrow> \<not> chClosed (results w) \<Longrightarrow>
   \<not> nilStreamInput b (calls ev (int64 (reqCounter w + 1))) \<Longrightarrow>
     fst (makeRequest b ev wid w) = Returned ()"
  by (auto simp: makeRequest_def logEv_def Let_def nilStreamInput_def prepFails_def
      makeBidiRequest_def makeClientStreamingRequest_def statsHandler_End_returns
      split: sum.splits prod.splits outcome.splits if_splits option.splits)

lemma workerLoop_frame:
  "workerLoop b ev wid thr k w = (r, w') \<Longrightarrow>
     tickers w' = tickers w \<and> reporterRunning w' = reporterRunning w \<and>
     chCap (results w') = chCap (results w) \<and> chClosed (results w') = chClosed (results w) \<and>
     (\<exists>es. evlog w' = evlog w @ es \<and>
        (\<forall>i t. EvTickWait i t \<in> set es \<longrightarrow> i = wid \<and> thr = Some t))"
proof (induction k arbitrary: w)
  case 0
  then show ?case by simp
next
  case (Suc k)
  show ?case
  proof (cases "chan_poll (stopCh w)")
    case (Some a)
    with Suc.prems show ?thesis
      by (cases a) (auto simp: logEv_def)
  next
    case None
    let ?w1 = "logEv [EvStopCheck wid False] w"
    show ?thesis
    proof (cases "0 < optQPS (rqConfig b)")
      case qps: True
      show ?thesis
      proof (cases thr)
        case thrNone: None
        with Suc.prems None qps show ?thesis by (auto simp: logEv_def)
      next
        case (Some t)
        obtain r2 w2 where m: "makeRequest b ev wid (logEv [EvTickWait wid t] ?w1) = (r2, w2)"
          by (cases "makeRequest b ev wid (logEv [EvTickWait wid t] ?w1)") auto
        from makeRequest_frame [OF m] obtain rest where f:
          "tickers w2 = tickers w" "reporterRunning w2 = reporterRunning w"
          "chCap (results w2) = chCap (results w)" "chClosed (results w2) = chClosed (results w)"
          "evlog w2 = evlog w @ [EvStopCheck wid False, EvTickWait wid t] @
             EvMakeRequest wid (int64 (reqCounter w + 1)) # rest"
          "\<forall>i t. EvTickWait i t \<notin> set rest"
          by (auto simp: logEv_def)
        show ?thesis
        proof (cases r2)
          case (Returned u)
          with Suc.prems None qps Some m have "workerLoop b ev wid thr k w2 = (r, w')"
            by (simp add: Let_def)
          from Suc.IH [OF this] f Some show ?thesis by auto
        next
          case (Panicked s)
          with Suc.prems None qps Some m have "w' = w2" by (simp add: Let_def)
          with f Some show ?thesis by auto
        next
          case Blocked
          with Suc.prems None qps Some m have "w' = w2" by (simp add: Let_def)
          with f Some show ?thesis by auto
        qed
      qed
    next
      case qps: False
      obtain r2 w2 where m: "makeRequest b ev wid ?w1 = (r2, w2)"
        by (cases "makeRequest b ev wid ?w1") auto
      from makeRequest_frame [OF m] obtain rest where f:
        "tickers w2 = tickers w" "reporterRunning w2 = reporterRunning w"
        "chCap (results w2) = chCap (results w)" "chClosed (results w2) = chClosed (results w)"
        "evlog w2 = evlog w @ [EvStopCheck wid False] @
           EvMakeRequest wid (int64 (reqCounter w + 1)) # rest"
        "\<forall>i t. EvTickWait i t \<notin> set rest"
        by (auto simp: logEv_def)
      show ?thesis
      proof (cases r2)
        case (Returned u)
        with Suc.prems None qps m have "workerLoop b ev wid thr k w2 = (r, w')"
          by (simp add: Let_def)
        from Suc.IH [OF this] f show ?thesis by auto
      next
        case (Panicked s)
        with Suc.prems None qps m have "w' = w2" by (simp add: Let_def)
        with f show ?thesis by auto
      next
        case Blocked
        with Suc.prems None qps m have "w' = w2" by (simp add: Let_def)
        with f show ?thesis by auto
      qed
    qed
  qed
qed

lemma workerLoop_steps:
  "chBuf (stopCh w) = [] \<Longrightarrow> reporterRunning w \<Longrightarrow> \<not> chClosed (results w) \<Longrightarrow>
   (\<forall>r. \<not> nilStreamInput b (calls ev r)) \<Longrightarrow> (0 < optQPS (rqConfig b) \<longrightarrow> thr \<noteq> None) \<Longrightarrow>
     \<exists>w'. workerLoop b ev wid thr k w = (Returned (), w') \<and>
          steps (evlog w') = steps (evlog w) @ concat (replicate k (iteration b wid thr)) \<and>
          stopCh w' = stopCh w"
proof (induction k arbitrary: w)
  case 0
  then show ?case by simp
next
  case (Suc k)
  have poll: "chan_poll (stopCh w) = None"
    using Suc.prems(1) by (simp add: chan_poll_def)
  let ?w1 = "if 0 < optQPS (rqConfig b)
             then logEv [EvStopCheck wid False, EvTickWait wid (the thr)] w
             else logEv [EvStopCheck wid False] w"
  have w1: "reporterRunning ?w1" "\<not> chClosed (results ?w1)" "stopCh ?w1 = stopCh w"
    "steps (evlog ?w1) @ [(wid, MakeRequest)] = steps (evlog w) @ iteration b wid thr"
    using Suc.prems by (auto simp: logEv_def iteration_def split: option.splits)
  obtain r2 w2 where m: "makeRequest b ev wid ?w1 = (r2, w2)"
    by (cases "makeRequest b ev wid ?w1") auto
  have "r2 = Returned ()"
    using makeRequest_returns [OF w1(1) w1(2), of b ev wid] Suc.prems(4) m by simp
  from makeRequest_frame [OF m] w1 have f:
    "stopCh w2 = stopCh w" "reporterRunning w2" "\<not> chClosed (results w2)"
    "steps (evlog w2) = steps (evlog w) @ iteration b wid thr"
    by auto
  have step: "workerLoop b ev wid thr (Suc k) w = workerLoop b ev wid thr k w2"
    using poll m \<open>r2 = Returned ()\<close> Suc.prems(5)
    by (auto simp: Let_def logEv_def split: option.splits)
  from Suc.IH [of w2] f Suc.prems obtain w' where
    "workerLoop b ev wid thr k w2 = (Returned (), w')"
    "steps (evlog w') = steps (evlog w2) @ concat (replicate k (iteration b wid thr))"
    "stopCh w' = stopCh w2"
    by auto
  with step f show ?case by simp
qed

lemma runWorker_frame:
  "runWorker b ev wid n w = (r, w') \<Longrightarrow>
     reporterRunning w' = reporterRunning w \<and>
     chCap (results w') = chCap (results w) \<and> chClosed (results w') = chClosed (results w)"
  by (auto simp: runWorker_def time_Tick_def Let_def split: if_splits prod.splits
      dest!: workerLoop_frame)

lemma runWorker_ticker:
  assumes q: "0 < optQPS (rqConfig b)" "optQPS (rqConfig b) \<le> 1000000"
    and r: "runWorker b ev wid n w = (r, w')"
  shows "tickers w' = tickers w @ [(1000000 div optQPS (rqConfig b)) * 1000] \<and>
     (\<exists>es. evlog w' = evlog w @ es \<and>
        (\<forall>i t. EvTickWait i t \<in> set es \<longrightarrow> i = wid \<and> t = length (tickers w)))"
proof -
  let ?d = "(1000000 sdiv optQPS (rqConfig b)) * 1000"
  let ?w1 = "w\<lparr>tickers := tickers w @ [?d]\<rparr>"
  from period_pos [OF q] have "time_Tick ?d w = (Some (length (tickers w)), ?w1)"
    by (simp add: time_Tick_def)
  with r q have "workerLoop b ev wid (Some (length (tickers w))) (nat n) ?w1 = (r, w')"
    by (simp add: runWorker_def)
  from workerLoop_frame [OF this] q show ?thesis
    by (auto simp: sdiv_nonneg)
qed

lemma spawn_frame:
  "spawn b ev is w = (r, w') \<Longrightarrow>
     reporterRunning w' = reporterRunning w \<and>
     chCap (results w') = chCap (results w) \<and> chClosed (results w') = chClosed (results w)"
proof (induction "is" arbitrary: w r w')
  case Nil
  then show ?case by simp
next
  case (Cons i "is")
  obtain r1 w1 where w1: "runWorker b ev i (optN (rqConfig b) sdiv optC (rqConfig b)) w = (r1, w1)"
    by (cases "runWorker b ev i (optN (rqConfig b) sdiv optC (rqConfig b)) w") auto
  note f1 = runWorker_frame [OF w1]
  show ?case
  proof (cases r1)
    case (Returned u)
    with Cons.prems w1 have "spawn b ev is w1 = (r, w')" by simp
    from Cons.IH [OF this] f1 show ?thesis by simp
  next
    case (Panicked s)
    with Cons.prems w1 have "w' = w1" by simp
    with f1 show ?thesis by simp
  next
    case Blocked
    obtain r2 w2 where w2: "spawn b ev is w1 = (r2, w2)"
      by (cases "spawn b ev is w1") auto
    with Cons.prems w1 Blocked have "w' = w2" by (cases r2) simp_all
    with Cons.IH [OF w2] f1 show ?thesis by simp
  qed
qed

lemma runWorkers_frame:
  "runWorkers b ev w = (r, w') \<Longrightarrow>
     reporterRunning w' = reporterRunning w \<and>
     chCap (results w') = chCap (results w) \<and> chClosed (results w') = chClosed (results w)"
  by (auto simp: runWorkers_def split: if_splits dest!: spawn_frame)

lemma stopLoop_frame:
  "stopLoop k w = (r, w') \<Longrightarrow>
     results w' = results w \<and> reporterRunning w' = reporterRunning w \<and> evlog w' = evlog w"
  by (induction k arbitrary: w) (auto split: outcome.splits)

lemma Finish_frame:
  "Finish ev w = (r, w') \<Longrightarrow> chCap (results w') = chCap (results w)"
  by (auto simp: Finish_def logEv_def Let_def split: if_splits)

subsection \<open>Runs of a worker and of the pool\<close>

text \<open>
  A worker that finds no sentinel, whose calls neither panic nor block and whose ticker
  exists runs all its iterations; the pool then returns, and worker \<open>i\<close> has entered
  \<open>makeRequest\<close> \<open>N div C\<close> times.
\<close>

lemma runWorker_run:
  assumes a: "chBuf (stopCh w) = []" "reporterRunning w" "\<not> chClosed (results w)"
    "\<forall>r. \<not> nilStreamInput b (calls ev r)" "optQPS (rqConfig b) \<le> 1000000"
  shows "\<exists>w'. runWorker b ev wid n w = (Returned (), w') \<and>
            steps (evlog w') = steps (evlog w) @ concat (replicate (nat n)
              ([(wid, StopCheck False)] @
               (if 0 < optQPS (rqConfig b) then [(wid, TickWait (length (tickers w)))] else []) @
               [(wid, MakeRequest)])) \<and>
            stopCh w' = stopCh w"
proof (cases "0 < optQPS (rqConfig b)")
  case True
  let ?d = "(1000000 sdiv optQPS (rqConfig b)) * 1000"
  let ?w1 = "w\<lparr>tickers := tickers w @ [?d]\<rparr>"
  from a True have "0 < ?d" by (simp add: period_pos)
  then have rw: "runWorker b ev wid n w =
      workerLoop b ev wid (Some (length (tickers w))) (nat n) ?w1"
    using True by (simp add: runWorker_def time_Tick_def)
  have "\<exists>w'. workerLoop b ev wid (Some (length (tickers w))) (nat n) ?w1 = (Returned (), w') \<and>
        steps (evlog w') = steps (evlog ?w1) @
          concat (replicate (nat n) (iteration b wid (Some (length (tickers w))))) \<and>
        stopCh w' = stopCh ?w1"
    using a by (intro workerLoop_steps) simp_all
  with rw True show ?thesis by (auto simp: iteration_def)
next
  case False
  then have rw: "runWorker b ev wid n w = workerLoop b ev wid None (nat n) w"
    by (simp add: runWorker_def)
  have "\<exists>w'. workerLoop b ev wid None (nat n) w = (Returned (), w') \<and>
        steps (evlog w') = steps (evlog w) @ concat (replicate (nat n) (iteration b wid None)) \<and>
        stopCh w' = stopCh w"
    using a False by (intro workerLoop_steps) simp_all
  with rw False show ?thesis by (auto simp: iteration_def)
qed

lemma count_list_iterations:
  "count_list (concat (replicate k ([(i, StopCheck False)] @ ts @ [(i, MakeRequest)]))) (j, MakeRequest) =
     (if j = i then k else 0) + k * count_list ts (j, MakeRequest)"
  by (induction k) auto

lemma runWorker_requests:
  assumes a: "chBuf (stopCh w) = []" "reporterRunning w" "\<not> chClosed (results w)"
    "\<forall>r. \<not> nilStreamInput b (calls ev r)" "optQPS (rqConfig b) \<le> 1000000"
  shows "\<exists>w'. runWorker b ev wid n w = (Returned (), w') \<and>
            (\<forall>j. requestsBy j w' = requestsBy j w + (if j = wid then nat n else 0)) \<and>
            chBuf (stopCh w') = [] \<and> reporterRunning w' \<and> \<not> chClosed (results w')"
proof -
  let ?ts = "if 0 < optQPS (rqConfig b) then [(wid, TickWait (length (tickers w)))] else []"
  from runWorker_run [OF a, of wid n] obtain w' where w':
    "runWorker b ev wid n w = (Returned (), w')"
    "steps (evlog w') = steps (evlog w) @ concat (replicate (nat n)
        ([(wid, StopCheck False)] @ ?ts @ [(wid, MakeRequest)]))"
    "stopCh w' = stopCh w"
    by blast
  have "count_list ?ts (j, MakeRequest) = 0" for j by simp
  then have "\<forall>j. requestsBy j w' = requestsBy j w + (if j = wid then nat n else 0)"
    unfolding requestsBy_def w'(2) count_list_append count_list_iterations by simp
  with w' a runWorker_frame [OF w'(1)] show ?thesis by auto
qed

lemma spawn_requests:
  assumes q: "optQPS (rqConfig b) \<le> 1000000" and p: "\<forall>r. \<not> nilStreamInput b (calls ev r)"
  shows "chBuf (stopCh w) = [] \<Longrightarrow> reporterRunning w \<Longrightarrow> \<not> chClosed (results w) \<Longrightarrow>
     \<exists>w'. spawn b ev [j ..< j + m] w = (Returned (), w') \<and>
          (\<forall>i. requestsBy i w' = requestsBy i w +
                 (if j \<le> i \<and> i < j + m then nat (optN (rqConfig b) sdiv optC (rqConfig b)) else 0))"
proof (induction m arbitrary: j w)
  case 0
  then show ?case by simp
next
  case (Suc m)
  let ?n = "optN (rqConfig b) sdiv optC (rqConfig b)"
  have l: "[j ..< j + Suc m] = j # [Suc j ..< Suc j + m]"
    by (simp add: upt_rec)
  from runWorker_requests [OF Suc.prems p q, of j ?n] obtain w1 where w1:
    "runWorker b ev j ?n w = (Returned (), w1)"
    "\<forall>i. requestsBy i w1 = requestsBy i w + (if i = j then nat ?n else 0)"
    "chBuf (stopCh w1) = []" "reporterRunning w1" "\<not> chClosed (results w1)"
    by blast
  from Suc.IH [OF w1(3-5), of "Suc j"] obtain w' where w':
    "spawn b ev [Suc j ..< Suc j + m] w1 = (Returned (), w')"
    "\<forall>i. requestsBy i w' = requestsBy i w1 +
           (if Suc j \<le> i \<and> i < Suc j + m then nat ?n else 0)"
    by blast
  have "spawn b ev [j ..< j + Suc m] w = (Returned (), w')"
    using w1(1) w'(1) by (simp only: l spawn.simps) simp
  moreover have "\<forall>i. requestsBy i w' = requestsBy i w +
      (if j \<le> i \<and> i < j + Suc m then nat ?n else 0)"
    using w1(2) w'(2) by auto
  ultimately show ?case by blast
qed

lemma runWorkers_requests:
  assumes c: "1 \<le> optC (rqConfig b)" and n: "0 \<le> optN (rqConfig b)"
    and q: "optQPS (rqConfig b) \<le> 1000000"
    and s: "chBuf (stopCh w) = []" and r: "reporterRunning w" "\<not> chClosed (results w)"
    and p: "\<forall>r. \<not> nilStreamInput b (calls ev r)"
  shows "\<exists>w'. runWorkers b ev w = (Returned (), w') \<and>
     (\<forall>i. requestsBy i w' = requestsBy i w +
        (if i < nat (optC (rqConfig b)) then nat (optN (rqConfig b) div optC (rqConfig b)) else 0)) \<and>
     (\<Sum>i < nat (optC (rqConfig b)). int (requestsBy i w') - int (requestsBy i w)) =
        optC (rqConfig b) * (optN (rqConfig b) div optC (rqConfig b)) \<and>
     optN (rqConfig b) - optC (rqConfig b) * (optN (rqConfig b) div optC (rqConfig b)) =
        optN (rqConfig b) mod optC (rqConfig b)"
proof -
  let ?C = "optC (rqConfig b)" and ?N = "optN (rqConfig b)"
  from c n have d: "?N sdiv ?C = ?N div ?C" by (simp add: sdiv_nonneg)
  from c n have nn: "0 \<le> ?N div ?C" by (simp add: pos_imp_zdiv_nonneg_iff)
  from spawn_requests [OF q p s r, of 0 "nat ?C"] obtain w' where w':
    "spawn b ev [0 ..< nat ?C] w = (Returned (), w')"
    "\<forall>i. requestsBy i w' = requestsBy i w + (if i < nat ?C then nat (?N div ?C) else 0)"
    by (auto simp: d)
  from c w'(1) have "runWorkers b ev w = (Returned (), w')"
    by (simp add: runWorkers_def)
  moreover have "(\<Sum>i < nat ?C. int (requestsBy i w') - int (requestsBy i w)) = ?C * (?N div ?C)"
  proof -
    have "(\<Sum>i < nat ?C. int (requestsBy i w') - int (requestsBy i w)) =
        (\<Sum>i < nat ?C. ?N div ?C)"
      using w'(2) nn by (intro sum.cong) auto
    also have "\<dots> = ?C * (?N div ?C)" using c by simp
    finally show ?thesis .
  qed
  moreover have "?N - ?C * (?N div ?C) = ?N mod ?C"
    by (simp add: minus_mult_div_eq_mod)
  ultimately show ?thesis using w'(2) by blast
qed

text \<open>Five calls by two workers: two calls each, and one call left out.\<close>

lemma runWorkers_requests_sample:
  "optN (rqConfig oddRequester) = 5 \<and> optC (rqConfig oddRequester) = 2 \<and>
   (\<exists>w'. runWorkers oddRequester sampleEnv sampleWorld = (Returned (), w') \<and>
         requestsBy 0 w' = 2 \<and> requestsBy 1 w' = 2 \<and> requestsBy 2 w' = 0) \<and>
   optN (rqConfig oddRequester) mod optC (rqConfig oddRequester) = 1"
proof -
  have c: "optN (rqConfig oddRequester) = 5" "optC (rqConfig oddRequester) = 2"
    "optQPS (rqConfig oddRequester) = 0"
    by (simp_all add: sample_ghz_defs)
  have w: "chBuf (stopCh sampleWorld) = []" "reporterRunning sampleWorld"
    "\<not> chClosed (results sampleWorld)" "\<forall>i. requestsBy i sampleWorld = 0"
    by (simp_all add: sample_ghz_defs world0_def requestsBy_def)
  have p: "\<forall>r. \<not> nilStreamInput oddRequester (calls sampleEnv r)"
    by (simp add: sample_ghz_defs nilStreamInput_def)
  from runWorkers_requests [of oddRequester sampleWorld sampleEnv] c w p
  show ?thesis by auto
qed

text \<open>Every worker makes a ticker when \<open>0 < QPS \<le> 1000000\<close>, and waits on that one.\<close>

lemma spawn_tickers:
  assumes q: "0 < optQPS (rqConfig b)" "optQPS (rqConfig b) \<le> 1000000"
  shows "spawn b ev [j ..< j + m] w = (r, w') \<Longrightarrow> (\<forall>s. r \<noteq> Panicked s) \<Longrightarrow>
     tickers w' = tickers w @ replicate m ((1000000 div optQPS (rqConfig b)) * 1000) \<and>
     (\<exists>es. evlog w' = evlog w @ es \<and>
        (\<forall>i t. EvTickWait i t \<in> set es \<longrightarrow>
           j \<le> i \<and> i < j + m \<and> t + j = length (tickers w) + i))"
proof (induction m arbitrary: j w r w')
  case 0
  then show ?case by simp
next
  case (Suc m)
  let ?n = "optN (rqConfig b) sdiv optC (rqConfig b)"
  let ?d = "(1000000 div optQPS (rqConfig b)) * 1000"
  have l: "[j ..< j + Suc m] = j # [Suc j ..< Suc j + m]"
    by (simp add: upt_rec)
  obtain r1 w1 where w1: "runWorker b ev j ?n w = (r1, w1)"
    by (cases "runWorker b ev j ?n w") auto
  from runWorker_ticker [OF q w1] obtain es1 where f1:
    "tickers w1 = tickers w @ [?d]" "evlog w1 = evlog w @ es1"
    "\<forall>i t. EvTickWait i t \<in> set es1 \<longrightarrow> i = j \<and> t = length (tickers w)"
    by blast
  obtain r2 w2 where w2: "spawn b ev [Suc j ..< Suc j + m] w1 = (r2, w2)"
    by (cases "spawn b ev [Suc j ..< Suc j + m] w1") auto
  have r1: "\<forall>s. r1 \<noteq> Panicked s"
    using Suc.prems w1 l by (cases r1) auto
  have "w' = w2 \<and> (\<forall>s. r2 \<noteq> Panicked s)"
    using Suc.prems w1 w2 l r1 by (cases r1; cases r2) auto
  then have w': "w' = w2" and r2: "\<forall>s. r2 \<noteq> Panicked s" by simp_all
  from Suc.IH [OF w2 r2] obtain es2 where f2:
    "tickers w2 = tickers w1 @ replicate m ?d" "evlog w2 = evlog w1 @ es2"
    "\<forall>i t. EvTickWait i t \<in> set es2 \<longrightarrow>
       Suc j \<le> i \<and> i < Suc j + m \<and> t + Suc j = length (tickers w1) + i"
    by blast
  have "tickers w' = tickers w @ replicate (Suc m) ?d"
    using f1 f2 w' by (simp add: replicate_append_same)
  moreover have "evlog w' = evlog w @ (es1 @ es2)"
    using f1 f2 w' by simp
  moreover have "\<forall>i t. EvTickWait i t \<in> set (es1 @ es2) \<longrightarrow>
      j \<le> i \<and> i < j + Suc m \<and> t + j = length (tickers w) + i"
  proof (intro allI impI)
    fix i t
    assume "EvTickWait i t \<in> set (es1 @ es2)"
    then consider "EvTickWait i t \<in> set es1" | "EvTickWait i t \<in> set es2" by auto
    then show "j \<le> i \<and> i < j + Suc m \<and> t + j = length (tickers w) + i"
    proof cases
      case 1
      with f1(3) show ?thesis by simp
    next
      case 2
      with f2(3) have "Suc j \<le> i \<and> i < Suc j + m \<and> t + Suc j = length (tickers w1) + i"
        by blast
      with f1(1) show ?thesis by simp
    qed
  qed
  ultimately show ?case by blast
qed

text \<open>
  With \<open>QPS > 1000000\<close> the period \<open>1e6 / QPS\<close> is 0, \<open>time.Tick\<close> returns nil and the first
  wait of every worker blocks forever.
\<close>

lemma runWorker_nil_ticker:
  "1000000 < optQPS (rqConfig b) \<Longrightarrow> 0 < n \<Longrightarrow> chBuf (stopCh w) = [] \<Longrightarrow>
     runWorker b ev wid n w = (Blocked, logEv [EvStopCheck wid False] w)"
proof -
  assume q: "1000000 < optQPS (rqConfig b)" and n: "0 < n" and s: "chBuf (stopCh w) = []"
  from n obtain k where k: "nat n = Suc k" by (cases "nat n") auto
  from q have "time_Tick ((1000000 sdiv optQPS (rqConfig b)) * 1000) w = (None, w)"
    by (simp add: time_Tick_def period_zero)
  with q s show ?thesis
    by (simp add: runWorker_def k chan_poll_def Let_def)
qed

lemma spawn_nil_ticker:
  assumes q: "1000000 < optQPS (rqConfig b)"
    and n: "0 < optN (rqConfig b) sdiv optC (rqConfig b)"
  shows "chBuf (stopCh w) = [] \<Longrightarrow>
     \<exists>w'. spawn b ev is w = ((if is = [] then Returned () else Blocked), w') \<and>
          steps (evlog w') = steps (evlog w) @ map (\<lambda>i. (i, StopCheck False)) is \<and>
          stopCh w' = stopCh w"
proof (induction "is" arbitrary: w)
  case Nil
  then show ?case by simp
next
  case (Cons i "is")
  let ?w1 = "logEv [EvStopCheck i False] w"
  have w1: "runWorker b ev i (optN (rqConfig b) sdiv optC (rqConfig b)) w = (Blocked, ?w1)"
    using q n Cons.prems by (rule runWorker_nil_ticker)
  have "chBuf (stopCh ?w1) = []" using Cons.prems by (simp add: logEv_def)
  from Cons.IH [OF this] obtain w' where
    "spawn b ev is ?w1 = ((if is = [] then Returned () else Blocked), w')"
    "steps (evlog w') = steps (evlog ?w1) @ map (\<lambda>i. (i, StopCheck False)) is"
    "stopCh w' = stopCh ?w1"
    by blast
  with w1 show ?case by (auto simp: logEv_def)
qed

subsection \<open>Streams and the driver\<close>

lemma recvLoop_eq:
  "recvLoop p ms = map (\<lambda>m. RecvMsg (Inr m)) ms @ [RecvMsg (Inl (terminal p))]"
  by (induction ms) simp_all

lemma bidiSendLoop_fails:
  "i < length ms \<Longrightarrow> sendErr p (k + i) = Some e \<Longrightarrow>
     \<exists>ops e'. bidiSendLoop p k ms = (ops, Some e') \<and> (\<forall>r. RecvMsg r \<notin> set ops) \<and> CloseSend \<notin> set ops"
proof (induction ms arbitrary: k i)
  case Nil
  then show ?case by simp
next
  case (Cons m ms)
  show ?case
  proof (cases "sendErr p k")
    case (Some e0)
    then show ?thesis by simp
  next
    case None
    with Cons.prems have "i \<noteq> 0" by (cases i) auto
    then obtain i' where i': "i = Suc i'" by (cases i) auto
    with Cons.prems have "i' < length ms" "sendErr p (Suc k + i') = Some e" by simp_all
    from Cons.IH [OF this] None show ?thesis by (auto split: prod.splits)
  qed
qed

text \<open>
  A call of a server-streaming method whose templates and payload succeed: \<open>makeRequest\<close>
  runs \<open>makeServerStreamingRequest\<close> and one result is recorded, with the error the RPC ended
  with. The name of a status with an error is never \<open>OK\<close>.
\<close>

lemma codeName_not_OK: "codeName c \<noteq> ''OK''"
  by (cases c) (simp_all add: codeName_def)

lemma statusName_error: "statusName (Some e) \<noteq> ''OK''"
  by (cases e) (simp_all add: statusName_def codeName_not_OK)

lemma makeRequest_serverStream:
  assumes m: "\<not> IsClientStreaming (rqMtd b)" "IsServerStreaming (rqMtd b)"
    and c: "dataResult (calls ev (int64 (reqCounter w + 1))) = Inr d"
      "mdResult (calls ev (int64 (reqCounter w + 1))) = Inr md"
      "payloadResult (calls ev (int64 (reqCounter w + 1))) = Inr (input, streamInput)"
    and w: "reporterRunning w" "\<not> chClosed (results w)"
      "length (chBuf (results w)) \<le> chCap (results w)"
  shows "\<exists>w'. makeRequest b ev wid w = (Returned (), w') \<and>
      evlog w' = evlog w @
        [EvMakeRequest wid (int64 (reqCounter w + 1)),
         EvRPC (int64 (reqCounter w + 1))
           (case md of None \<Rightarrow> None | Some kv \<Rightarrow> if 0 < length kv then Some kv else None)
           (makeServerStreamingRequest (peer (calls ev (int64 (reqCounter w + 1)))) input)] \<and>
      details w' @ chBuf (results w') =
        details w @ chBuf (results w) @
          [\<lparr> crErr = rpcEnd (peer (calls ev (int64 (reqCounter w + 1)))),
             crStatus = statusName (rpcEnd (peer (calls ev (int64 (reqCounter w + 1))))),
             crDuration = elapsed (peer (calls ev (int64 (reqCounter w + 1)))) \<rparr>]"
proof -
  let ?n = "int64 (reqCounter w + 1)"
  let ?p = "peer (calls ev ?n)"
  let ?md = "case md of None \<Rightarrow> None | Some kv \<Rightarrow> if 0 < length kv then Some kv else None"
  let ?w1 = "logEv [EvRPC ?n ?md (makeServerStreamingRequest ?p input)]
               (logEv [EvMakeRequest wid ?n] (w\<lparr>reqCounter := ?n\<rparr>))"
  have mr: "makeRequest b ev wid w = statsHandler_End ?p ?w1"
    using m c by (simp add: makeRequest_def Let_def)
  have w1: "reporterRunning ?w1" "\<not> chClosed (results ?w1)"
    "length (chBuf (results ?w1)) \<le> chCap (results ?w1)"
    using w by (simp_all add: logEv_def)
  obtain r w' where s: "statsHandler_End ?p ?w1 = (r, w')"
    by (cases "statsHandler_End ?p ?w1") auto
  from statsHandler_End_returns [OF w1(1,2), of ?p] s have r: "r = Returned ()" by simp
  from statsHandler_End_frame [OF s] have "evlog w' = evlog ?w1" by simp
  moreover from statsHandler_End_keeps [OF s [unfolded r] w1(3)]
  have "details w' @ chBuf (results w') =
      details ?w1 @ chBuf (results ?w1) @
        [\<lparr> crErr = rpcEnd ?p, crStatus = statusName (rpcEnd ?p), crDuration = elapsed ?p \<rparr>]"
    by simp
  ultimately show ?thesis
    using mr s r by (simp add: logEv_def)
qed

lemma Run_chCap:
  assumes r: "0 \<le> optC (rqConfig b)" "optC (rqConfig b) * 1000 < 2 ^ 63"
  shows "chCap (results (snd (Run b ev))) = nat (min (optC (rqConfig b) * 1000) 1000000)"
proof -
  let ?n = "nat (min (optC (rqConfig b) * 1000) 1000000)"
  from r have i: "int64 (optC (rqConfig b) * 1000) = optC (rqConfig b) * 1000"
    by (intro int64_id) simp_all
  let ?rs = "\<lparr> chCap = ?n, chBuf = [], chClosed = False \<rparr> :: callResult chan"
  let ?st = "\<lparr> chCap = nat (optC (rqConfig b)), chBuf = [], chClosed = False \<rparr> :: bool chan"
  let ?w1 = "logEv [EvMakeResults ?n, EvMakeStopCh (nat (optC (rqConfig b)))]
                (world0\<lparr>results := ?rs, stopCh := ?st\<rparr>)"
  have m1: "make_chan (min_go (int64 (optC (rqConfig b) * 1000)) maxResult) = Returned ?rs"
    using r by (simp add: i make_chan_def min_go_def maxResult_def min_def)
  have m2: "make_chan (optC (rqConfig b)) = Returned ?st"
    using r by (simp add: make_chan_def)
  show ?thesis
  proof (cases "connect b ev")
    case (Inl e)
    then show ?thesis by (simp add: Run_def m1 m2 logEv_def Let_def)
  next
    case (Inr cc)
    let ?w2 = "logEv [EvConnect None, EvReporterRun] (?w1\<lparr>reporterRunning := True\<rparr>)"
    let ?w3 = "if stopCalled ev then snd (Stop b ?w2) else ?w2"
    have w3: "chCap (results ?w3) = ?n"
      using stopLoop_frame [of "nat (optC (rqConfig b))" ?w2]
      by (cases "stopLoop (nat (optC (rqConfig b))) ?w2") (auto simp: Stop_def logEv_def)
    obtain r4 w4 where w4: "runWorkers b ev ?w3 = (r4, w4)"
      by (cases "runWorkers b ev ?w3") auto
    from runWorkers_frame [OF w4] w3 have c4: "chCap (results w4) = ?n" by simp
    obtain r5 w5 where w5: "Finish ev w4 = (r5, w5)"
      by (cases "Finish ev w4") auto
    from Finish_frame [OF w5] c4 have c5: "chCap (results w5) = ?n" by simp
    have "snd (Run b ev) = w4 \<or> snd (Run b ev) = w5 \<or> snd (Run b ev) = logEv [EvConnClose] w5"
      using Inr w4 w5 by (cases r4; cases r5) (simp_all add: Run_def m1 m2 Let_def)
    with c4 c5 show ?thesis by (auto simp: logEv_def)
  qed
qed

subsection \<open>Sample runs\<close>

lemma eval_runWorker_qps:
  "runWorker qpsRequester sampleEnv 0 2 sampleWorld =
     (Returned (), sampleWorld\<lparr>
        results := \<lparr> chCap = 2000, chBuf = replicate 2 okResult, chClosed = False \<rparr>,
        reqCounter := 2, tickers := [333333000],
        evlog := [EvStopCheck 0 False, EvTickWait 0 0, EvMakeRequest 0 1,
                  EvRPC 1 None [InvokeRpc (Some (Message ''Bob'')) None],
                  EvStopCheck 0 False, EvTickWait 0 0, EvMakeRequest 0 2,
                  EvRPC 2 None [InvokeRpc (Some (Message ''Bob'')) None]]\<rparr>)"
  by (simp add: eval_defs sample_ghz_defs)

lemma eval_runWorker_stopped:
  "runWorker qpsRequester sampleEnv 0 2 stoppedWorld =
     (Returned (), stoppedWorld\<lparr>
        stopCh := \<lparr> chCap = 2, chBuf = [True], chClosed = False \<rparr>,
        tickers := [333333000], evlog := [EvStopCheck 0 True]\<rparr>)"
  by (simp add: eval_defs sample_ghz_defs)

lemma eval_runWorkers_qps:
  "runWorkers qpsRequester sampleEnv sampleWorld =
     (Returned (), sampleWorld\<lparr>
        results := \<lparr> chCap = 2000, chBuf = replicate 4 okResult, chClosed = False \<rparr>,
        reqCounter := 4, tickers := [333333000, 333333000],
        evlog := [EvStopCheck 0 False, EvTickWait 0 0, EvMakeRequest 0 1,
                  EvRPC 1 None [InvokeRpc (Some (Message ''Bob'')) None],
                  EvStopCheck 0 False, EvTickWait 0 0, EvMakeRequest 0 2,
                  EvRPC 2 None [InvokeRpc (Some (Message ''Bob'')) None],
                  EvStopCheck 1 False, EvTickWait 1 1, EvMakeRequest 1 3,
                  EvRPC 3 None [InvokeRpc (Some (Message ''Bob'')) None],
                  EvStopCheck 1 False, EvTickWait 1 1, EvMakeRequest 1 4,
                  EvRPC 4 None [InvokeRpc (Some (Message ''Bob'')) None]]\<rparr>)"
  by (simp add: eval_defs sample_ghz_defs)

lemma eval_runWorkers_fast:
  "runWorkers fastRequester sampleEnv sampleWorld =
     (Blocked, sampleWorld\<lparr>evlog := [EvStopCheck 0 False, EvStopCheck 1 False]\<rparr>)"
  by (simp add: eval_defs sample_ghz_defs)

lemma eval_Run_fast:
  "fst (Run fastRequester sampleEnv) = Blocked \<and>
   details (snd (Run fastRequester sampleEnv)) = [] \<and>
   chBuf (results (snd (Run fastRequester sampleEnv))) = []"
  by (simp add: eval_defs Run_def sample_ghz_defs)

lemma eval_Run_drop:
  "fst (Run sampleRequester dropEnv) =
     Returned (Some \<lparr> repCount = 3, repTotal = 1000000000,
                      repDetails = replicate 3 okResult \<rparr>, None)"
  by (simp add: eval_defs Run_def sample_ghz_defs)

lemma eval_connect_noDial:
  "connect sampleRequester noDialEnv = Inl (LibError ''context deadline exceeded'')"
  by (simp add: eval_defs sample_ghz_defs)

lemma eval_makeRequest_stream:
  "makeRequest streamRequester streamEnv 0 sampleWorld =
     (Returned (), sampleWorld\<lparr>
        results := \<lparr> chCap = 2000, chBuf = [okResult], chClosed = False \<rparr>,
        reqCounter := 1,
        evlog := [EvMakeRequest 0 1,
                  EvRPC 1 None [InvokeRpcServerStream (Some (Message ''Bob'')) None,
                    RecvMsg (Inr (Message ''a'')), RecvMsg (Inr (Message ''b'')),
                    RecvMsg (Inr (Message ''c'')), RecvMsg (Inl EOF)]]\<rparr>)"
  by (simp add: eval_defs sample_ghz_defs stream_defs recvLoop_eq)

lemma eval_Run_stream:
  "fst (Run streamRequester streamEnv) =
     Returned (Some \<lparr> repCount = 1, repTotal = 1000000000, repDetails = [okResult] \<rparr>, None)"
  by (simp add: eval_defs Run_def sample_ghz_defs stream_defs recvLoop_eq)

subsection \<open>The claims\<close>

text \<open>
  C1, as amended. The claim has all workers wait on one shared ticker. In the code
  \<open>runWorker\<close> calls \<open>time.Tick\<close> itself: when \<open>0 < QPS \<le> 1000000\<close> and no worker panics, a
  pool of \<open>C\<close> workers makes \<open>C\<close> tickers, each of period \<open>1e6 / QPS\<close> microseconds, and
  worker \<open>i\<close> waits on the \<open>i\<close>-th of them and on no other. So \<open>QPS\<close> paces each worker,
  not the pool.
\<close>

theorem runWorkers_tickers:
  assumes q: "0 < optQPS (rqConfig b)" "optQPS (rqConfig b) \<le> 1000000"
    and r: "runWorkers b ev w = (r, w')" "\<forall>s. r \<noteq> Panicked s"
  shows "tickers w' =
      tickers w @ replicate (nat (optC (rqConfig b))) ((1000000 div optQPS (rqConfig b)) * 1000) \<and>
     (\<exists>es. evlog w' = evlog w @ es \<and>
        (\<forall>i t. EvTickWait i t \<in> set es \<longrightarrow>
           i < nat (optC (rqConfig b)) \<and> t = length (tickers w) + i))"
proof -
  from r have c: "\<not> optC (rqConfig b) < 0"
    by (auto simp: runWorkers_def split: if_splits)
  with r have "spawn b ev [0 ..< 0 + nat (optC (rqConfig b))] w = (r, w')"
    by (simp add: runWorkers_def)
  from spawn_tickers [OF q this r(2)] show ?thesis by simp
qed

theorem runWorkers_tickers_witness:
  "0 < optQPS (rqConfig qpsRequester) \<and> optQPS (rqConfig qpsRequester) \<le> 1000000 \<and>
   fst (runWorkers qpsRequester sampleEnv sampleWorld) = Returned () \<and>
   tickers (snd (runWorkers qpsRequester sampleEnv sampleWorld)) = [333333000, 333333000]"
  using runWorkers_tickers [of qpsRequester sampleEnv sampleWorld
      "fst (runWorkers qpsRequester sampleEnv sampleWorld)"
      "snd (runWorkers qpsRequester sampleEnv sampleWorld)"]
  by (simp add: eval_runWorkers_qps) (simp add: sample_ghz_defs world0_def)

text \<open>
  Against C1 as stated: with \<open>QPS = 3\<close> and two workers, two tickers exist; worker 0 waits
  on ticker 0 and never on ticker 1, worker 1 waits on ticker 1 and never on ticker 0.
\<close>

theorem shared_ticker_counterexample:
  "EvTickWait 0 0 \<in> set (evlog (snd (runWorkers qpsRequester sampleEnv sampleWorld))) \<and>
   EvTickWait 1 1 \<in> set (evlog (snd (runWorkers qpsRequester sampleEnv sampleWorld))) \<and>
   EvTickWait 1 0 \<notin> set (evlog (snd (runWorkers qpsRequester sampleEnv sampleWorld))) \<and>
   EvTickWait 0 1 \<notin> set (evlog (snd (runWorkers qpsRequester sampleEnv sampleWorld))) \<and>
   tickers (snd (runWorkers qpsRequester sampleEnv sampleWorld)) = [333333000, 333333000]"
  by (simp add: eval_runWorkers_qps)

text \<open>
  C2, which the code breaks. Once a \<open>SendMsg\<close> of \<open>makeBidiRequest\<close> has returned an
  error, \<open>err\<close> is not nil and the receive loop \<open>for err == nil\<close> is skipped: on an open
  stream whose \<open>i\<close>-th send fails, the function makes no \<open>RecvMsg\<close> call (and no
  \<open>CloseSend\<close>), whatever the error, \<open>io.EOF\<close> included. \<open>makeClientStreamingRequest\<close> does
  call \<open>CloseAndReceive\<close> after an \<open>io.EOF\<close> of \<open>SendMsg\<close>, to get the status.
\<close>

theorem makeBidiRequest_send_error:
  "openErr p = None \<Longrightarrow> i < length streamInput \<Longrightarrow> sendErr p i = Some e \<Longrightarrow>
     \<exists>ops. makeBidiRequest p (Some streamInput) = Returned ops \<and>
           (\<forall>r. RecvMsg r \<notin> set ops) \<and> CloseSend \<notin> set ops"
  using bidiSendLoop_fails [of i streamInput p 0 e]
  by (auto simp: makeBidiRequest_def)

theorem makeBidiRequest_send_error_witness:
  "openErr goAwayPeer = None \<and> sendErr goAwayPeer 1 = Some EOF \<and>
   makeBidiRequest goAwayPeer (Some [Message ''x'', Message ''y'', Message ''z'']) =
     Returned [InvokeRpcBidiStream None, SendMsg (Message ''x'') None,
               SendMsg (Message ''y'') (Some EOF)] \<and>
   makeClientStreamingRequest goAwayPeer (Some [Message ''x'', Message ''y'', Message ''z'']) =
     Returned [InvokeRpcClientStream None, SendMsg (Message ''x'') None,
               SendMsg (Message ''y'') (Some EOF), CloseAndReceive]"
  using makeBidiRequest_send_error
    [of goAwayPeer 1 "[Message ''x'', Message ''y'', Message ''z'']" EOF]
  by (simp add: sample_ghz_defs makeBidiRequest_def makeClientStreamingRequest_def)

text \<open>
  C3, as amended. The claim has the wait on the ticker come before the stop check. In the
  code an iteration first polls the stop channel and returns at once on a sentinel, without
  a wait and without a call; otherwise it waits on the worker's ticker when \<open>QPS > 0\<close>,
  and then calls \<open>makeRequest\<close>. So a worker that finds a sentinel at its first iteration
  makes the stop check only, and a worker that finds none, whose calls neither panic nor
  block and whose ticker exists (\<open>QPS \<le> 1000000\<close>), makes \<open>n\<close> times the steps stop check,
  wait (when \<open>QPS > 0\<close>), call. At any iteration, a sentinel makes the loop return at once.
\<close>

theorem runWorker_iterations:
  "(chan_poll (stopCh w) = Some (s, ch) \<and> 0 < n \<longrightarrow>
      (\<exists>w'. runWorker b ev wid n w = (Returned (), w') \<and>
            steps (evlog w') = steps (evlog w) @ [(wid, StopCheck True)] \<and> stopCh w' = ch)) \<and>
   (chBuf (stopCh w) = [] \<and> reporterRunning w \<and> \<not> chClosed (results w) \<and>
    (\<forall>r. \<not> nilStreamInput b (calls ev r)) \<and> optQPS (rqConfig b) \<le> 1000000 \<longrightarrow>
      (\<exists>w'. runWorker b ev wid n w = (Returned (), w') \<and>
            steps (evlog w') = steps (evlog w) @ concat (replicate (nat n)
              ([(wid, StopCheck False)] @
               (if 0 < optQPS (rqConfig b) then [(wid, TickWait (length (tickers w)))] else []) @
               [(wid, MakeRequest)])))) \<and>
   (chan_poll (stopCh w) = Some (s, ch) \<longrightarrow>
      workerLoop b ev wid thr (Suc k) w =
        (Returned (), logEv [EvStopCheck wid True] (w\<lparr>stopCh := ch\<rparr>)))"
proof (intro conjI impI)
  assume "chan_poll (stopCh w) = Some (s, ch)"
  then show "workerLoop b ev wid thr (Suc k) w =
        (Returned (), logEv [EvStopCheck wid True] (w\<lparr>stopCh := ch\<rparr>))"
    by simp
next
  assume a: "chan_poll (stopCh w) = Some (s, ch) \<and> 0 < n"
  then obtain k where k: "nat n = Suc k" by (cases "nat n") auto
  from a show "\<exists>w'. runWorker b ev wid n w = (Returned (), w') \<and>
            steps (evlog w') = steps (evlog w) @ [(wid, StopCheck True)] \<and> stopCh w' = ch"
    by (auto simp: runWorker_def time_Tick_def k logEv_def Let_def)
next
  assume "chBuf (stopCh w) = [] \<and> reporterRunning w \<and> \<not> chClosed (results w) \<and>
    (\<forall>r. \<not> nilStreamInput b (calls ev r)) \<and> optQPS (rqConfig b) \<le> 1000000"
  then have "\<exists>w'. runWorker b ev wid n w = (Returned (), w') \<and>
            steps (evlog w') = steps (evlog w) @ concat (replicate (nat n)
              ([(wid, StopCheck False)] @
               (if 0 < optQPS (rqConfig b) then [(wid, TickWait (length (tickers w)))] else []) @
               [(wid, MakeRequest)])) \<and>
            stopCh w' = stopCh w"
    by (intro runWorker_run) simp_all
  then show "\<exists>w'. runWorker b ev wid n w = (Returned (), w') \<and>
            steps (evlog w') = steps (evlog w) @ concat (replicate (nat n)
              ([(wid, StopCheck False)] @
               (if 0 < optQPS (rqConfig b) then [(wid, TickWait (length (tickers w)))] else []) @
               [(wid, MakeRequest)]))"
    by blast
qed

theorem runWorker_iterations_witness:
  "chan_poll (stopCh stoppedWorld) = Some (True, \<lparr> chCap = 2, chBuf = [True], chClosed = False \<rparr>) \<and>
   steps (evlog (snd (runWorker qpsRequester sampleEnv 0 2 stoppedWorld))) = [(0, StopCheck True)] \<and>
   chBuf (stopCh sampleWorld) = [] \<and> reporterRunning sampleWorld \<and>
   \<not> chClosed (results sampleWorld) \<and> optQPS (rqConfig qpsRequester) = 3 \<and>
   steps (evlog (snd (runWorker qpsRequester sampleEnv 0 2 sampleWorld))) =
     [(0, StopCheck False), (0, TickWait 0), (0, MakeRequest),
      (0, StopCheck False), (0, TickWait 0), (0, MakeRequest)]"
  using runWorker_iterations [of stoppedWorld True
      "\<lparr> chCap = 2, chBuf = [True], chClosed = False \<rparr>" 2 qpsRequester sampleEnv 0]
    runWorker_iterations [of sampleWorld True
      "\<lparr> chCap = 2, chBuf = [True], chClosed = False \<rparr>" 2 qpsRequester sampleEnv 0]
  by (simp add: eval_runWorker_qps eval_runWorker_stopped)
     (simp add: sample_ghz_defs chan_poll_def world0_def)

text \<open>
  Against C3 as stated: with \<open>QPS = 3\<close> the first step of the worker is the stop check, not
  a wait on the ticker, and with a sentinel in the stop channel the worker returns after
  the stop check, without ever waiting on the ticker.
\<close>

theorem worker_order_counterexample:
  "steps (evlog (snd (runWorker qpsRequester sampleEnv 0 2 sampleWorld))) =
     [(0, StopCheck False), (0, TickWait 0), (0, MakeRequest),
      (0, StopCheck False), (0, TickWait 0), (0, MakeRequest)] \<and>
   hd (steps (evlog (snd (runWorker qpsRequester sampleEnv 0 2 sampleWorld)))) =
     (0, StopCheck False) \<and>
   fst (runWorker qpsRequester sampleEnv 0 2 stoppedWorld) = Returned () \<and>
   steps (evlog (snd (runWorker qpsRequester sampleEnv 0 2 stoppedWorld))) =
     [(0, StopCheck True)]"
  by (simp add: eval_runWorker_qps eval_runWorker_stopped)

text \<open>
  C4, which the code breaks when \<open>QPS > 1000000\<close>. The period \<open>1e6 / QPS\<close> is then 0,
  \<open>time.Tick\<close> returns a nil channel and every worker blocks forever in its first
  iteration: with \<open>1 \<le> C \<le> N\<close> and no sentinel, \<open>runWorkers\<close> never returns and the workers
  make their first stop check and no call, although \<open>N div C \<ge> 1\<close>. (For \<open>QPS \<le> 1000000\<close>
  the claim holds: \<open>runWorkers_requests\<close>.)
\<close>

theorem runWorkers_qps_above_million:
  "1000000 < optQPS (rqConfig b) \<Longrightarrow> 1 \<le> optC (rqConfig b) \<Longrightarrow>
   optC (rqConfig b) \<le> optN (rqConfig b) \<Longrightarrow> chBuf (stopCh w) = [] \<Longrightarrow>
     \<exists>w'. runWorkers b ev w = (Blocked, w') \<and>
          steps (evlog w') =
            steps (evlog w) @ map (\<lambda>i. (i, StopCheck False)) [0 ..< nat (optC (rqConfig b))] \<and>
          (\<forall>i. requestsBy i w' = requestsBy i w)"
proof -
  assume q: "1000000 < optQPS (rqConfig b)" and c: "1 \<le> optC (rqConfig b)"
    and n: "optC (rqConfig b) \<le> optN (rqConfig b)" and s: "chBuf (stopCh w) = []"
  from c n have "0 < optN (rqConfig b) div optC (rqConfig b)"
    by (simp add: pos_imp_zdiv_pos_iff)
  with c n have n': "0 < optN (rqConfig b) sdiv optC (rqConfig b)"
    by (simp add: sdiv_nonneg)
  from c have ne: "[0 ..< nat (optC (rqConfig b))] \<noteq> []" by simp
  from spawn_nil_ticker [OF q n' s, of ev "[0 ..< nat (optC (rqConfig b))]"] ne c
  obtain w' where w': "runWorkers b ev w = (Blocked, w')"
    "steps (evlog w') =
       steps (evlog w) @ map (\<lambda>i. (i, StopCheck False)) [0 ..< nat (optC (rqConfig b))]"
    by (auto simp: runWorkers_def)
  have z: "count_list (map (\<lambda>i. (i, StopCheck False)) xs) (j, MakeRequest) = 0"
    for xs :: "nat list" and j :: nat
    by (induction xs) simp_all
  from w'(2) have "\<forall>i. requestsBy i w' = requestsBy i w"
    by (simp add: requestsBy_def z)
  with w' show ?thesis by blast
qed

theorem runWorkers_qps_above_million_witness:
  "1000000 < optQPS (rqConfig fastRequester) \<and> 1 \<le> optC (rqConfig fastRequester) \<and>
   optC (rqConfig fastRequester) \<le> optN (rqConfig fastRequester) \<and>
   chBuf (stopCh sampleWorld) = [] \<and>
   fst (runWorkers fastRequester sampleEnv sampleWorld) = Blocked \<and>
   steps (evlog (snd (runWorkers fastRequester sampleEnv sampleWorld))) =
     [(0, StopCheck False), (1, StopCheck False)] \<and>
   fst (Run fastRequester sampleEnv) = Blocked"
  using runWorkers_qps_above_million [of fastRequester sampleWorld sampleEnv]
  by (simp add: eval_runWorkers_fast eval_Run_fast)
     (simp add: sample_ghz_defs world0_def)

text \<open>
  C5. When the payload template, the metadata template or the payload messages of a call
  fail, \<open>makeRequest\<close> returns having taken an ordinal and nothing else: no RPC is opened,
  the stats handler is not run, the result channel and the reporter's list are unchanged.
  A worker that found no sentinel then goes on with its remaining iterations. And the count
  of the report can be less than \<open>N\<close>: there is a run of the sample requester, whose \<open>N\<close>
  is a multiple of \<open>C\<close>, in which the first call fails so and the report counts fewer than
  \<open>N\<close> results.
\<close>

theorem makeRequest_prepFails:
  "prepFails (calls ev (int64 (reqCounter w + 1))) \<Longrightarrow>
     makeRequest b ev wid w =
       (Returned (), logEv [EvMakeRequest wid (int64 (reqCounter w + 1))]
                       (w\<lparr>reqCounter := int64 (reqCounter w + 1)\<rparr>)) \<and>
     (chan_poll (stopCh w) = None \<and> (0 < optQPS (rqConfig b) \<longrightarrow> thr = Some t) \<longrightarrow>
        workerLoop b ev wid thr (Suc k) w =
          workerLoop b ev wid thr k
            (logEv ([EvStopCheck wid False] @
                    (if 0 < optQPS (rqConfig b) then [EvTickWait wid t] else []) @
                    [EvMakeRequest wid (int64 (reqCounter w + 1))])
               (w\<lparr>reqCounter := int64 (reqCounter w + 1)\<rparr>))) \<and>
     (\<exists>ev' rep w'. prepFails (calls ev' 1) \<and>
        Run sampleRequester ev' = (Returned (Some rep, None), w') \<and>
        int (repCount rep) < optN (rqConfig sampleRequester))"
proof -
  assume f: "prepFails (calls ev (int64 (reqCounter w + 1)))"
  have m: "makeRequest b ev wid' w' =
       (Returned (), logEv [EvMakeRequest wid' (int64 (reqCounter w' + 1))]
                       (w'\<lparr>reqCounter := int64 (reqCounter w' + 1)\<rparr>))"
    if "prepFails (calls ev (int64 (reqCounter w' + 1)))" for wid' w'
    using that by (auto simp: makeRequest_def prepFails_def Let_def isl_def split: sum.splits)
  have l: "workerLoop b ev wid thr (Suc k) w =
          workerLoop b ev wid thr k
            (logEv ([EvStopCheck wid False] @
                    (if 0 < optQPS (rqConfig b) then [EvTickWait wid t] else []) @
                    [EvMakeRequest wid (int64 (reqCounter w + 1))])
               (w\<lparr>reqCounter := int64 (reqCounter w + 1)\<rparr>))"
    if "chan_poll (stopCh w) = None" "0 < optQPS (rqConfig b) \<longrightarrow> thr = Some t"
  proof (cases "0 < optQPS (rqConfig b)")
    case True
    have "prepFails (calls ev (int64 (reqCounter
        (logEv [EvTickWait wid t] (logEv [EvStopCheck wid False] w)) + 1)))"
      using f by (simp add: logEv_def)
    from m [OF this] that True show ?thesis
      by (simp add: Let_def logEv_def)
  next
    case False
    have "prepFails (calls ev (int64 (reqCounter (logEv [EvStopCheck wid False] w) + 1)))"
      using f by (simp add: logEv_def)
    from m [OF this] that False show ?thesis
      by (simp add: Let_def logEv_def)
  qed
  have "prepFails (calls dropEnv 1)"
    by (simp add: sample_ghz_defs prepFails_def)
  moreover have "Run sampleRequester dropEnv =
      (Returned (Some \<lparr> repCount = 3, repTotal = 1000000000,
                       repDetails = replicate 3 okResult \<rparr>, None),
       snd (Run sampleRequester dropEnv))"
    using eval_Run_drop by (metis prod.collapse)
  moreover have "int 3 < optN (rqConfig sampleRequester)"
    by (simp add: sample_ghz_defs)
  ultimately have "\<exists>ev' rep w'. prepFails (calls ev' 1) \<and>
        Run sampleRequester ev' = (Returned (Some rep, None), w') \<and>
        int (repCount rep) < optN (rqConfig sampleRequester)"
    by (intro exI [of _ dropEnv] exI [of _ "\<lparr> repCount = 3, repTotal = 1000000000,
          repDetails = replicate 3 okResult \<rparr>"] exI [of _ "snd (Run sampleRequester dropEnv)"])
       simp
  with m [OF f] l show ?thesis by blast
qed

theorem makeRequest_prepFails_witness:
  "prepFails (calls dropEnv (int64 (reqCounter sampleWorld + 1))) \<and>
   makeRequest sampleRequester dropEnv 0 sampleWorld =
     (Returned (), logEv [EvMakeRequest 0 1] (sampleWorld\<lparr>reqCounter := 1\<rparr>)) \<and>
   chan_poll (stopCh sampleWorld) = None \<and>
   workerLoop sampleRequester dropEnv 0 None (Suc 1) sampleWorld =
     workerLoop sampleRequester dropEnv 0 None 1
       (logEv [EvStopCheck 0 False, EvMakeRequest 0 1] (sampleWorld\<lparr>reqCounter := 1\<rparr>)) \<and>
   optN (rqConfig sampleRequester) = 4 \<and>
   fst (Run sampleRequester dropEnv) =
     Returned (Some \<lparr> repCount = 3, repTotal = 1000000000,
                      repDetails = replicate 3 okResult \<rparr>, None)"
proof -
  have c: "int64 (reqCounter sampleWorld + 1) = 1"
    by (simp add: sample_ghz_defs world0_def int64_def)
  have h: "prepFails (calls dropEnv (int64 (reqCounter sampleWorld + 1)))"
    unfolding c by (simp add: sample_ghz_defs prepFails_def)
  have p: "chan_poll (stopCh sampleWorld) = None"
    by (simp add: sample_ghz_defs chan_poll_def world0_def)
  have q: "\<not> 0 < optQPS (rqConfig sampleRequester)"
    by (simp add: sample_ghz_defs)
  have n: "optN (rqConfig sampleRequester) = 4"
    by (simp add: sample_ghz_defs)
  from makeRequest_prepFails [OF h, of sampleRequester 0 None 0 1] p q
  have "makeRequest sampleRequester dropEnv 0 sampleWorld =
     (Returned (), logEv [EvMakeRequest 0 1] (sampleWorld\<lparr>reqCounter := 1\<rparr>)) \<and>
    workerLoop sampleRequester dropEnv 0 None (Suc 1) sampleWorld =
     workerLoop sampleRequester dropEnv 0 None 1
       (logEv [EvStopCheck 0 False, EvMakeRequest 0 1] (sampleWorld\<lparr>reqCounter := 1\<rparr>))"
    unfolding c by simp
  with h p n eval_Run_drop show ?thesis by simp
qed

text \<open>
  C6. When \<open>Run\<close> has made its two channels and \<open>connect\<close> fails, \<open>Run\<close> returns a nil
  report and the error of \<open>connect\<close>; the reporter was not started, no worker made a step,
  no result was recorded, and the run did nothing but make the two channels and try to
  connect.
\<close>

theorem Run_connect_fails:
  "make_chan (min_go (int64 (optC (rqConfig b) * 1000)) maxResult) =
     Returned (rs :: callResult chan) \<Longrightarrow>
   make_chan (optC (rqConfig b)) = Returned (st :: bool chan) \<Longrightarrow>
   connect b ev = Inl e \<Longrightarrow>
     fst (Run b ev) = Returned (None, Some e) \<and>
     \<not> reporterRunning (snd (Run b ev)) \<and>
     evlog (snd (Run b ev)) =
       [EvMakeResults (chCap rs), EvMakeStopCh (chCap st), EvConnect (Some e)] \<and>
     steps (evlog (snd (Run b ev))) = [] \<and>
     details (snd (Run b ev)) = [] \<and> chBuf (results (snd (Run b ev))) = [] \<and>
     reqCounter (snd (Run b ev)) = 0"
proof -
  assume m: "make_chan (min_go (int64 (optC (rqConfig b) * 1000)) maxResult) = Returned rs"
    "make_chan (optC (rqConfig b)) = Returned st"
    and c: "connect b ev = Inl e"
  from m(1) have "chBuf rs = []"
    by (auto simp: make_chan_def split: if_splits)
  with m c show ?thesis
    by (simp add: Run_def logEv_def world0_def Let_def)
qed

theorem Run_connect_fails_witness:
  "make_chan (min_go (int64 (optC (rqConfig sampleRequester) * 1000)) maxResult) =
     Returned \<lparr> chCap = 2000, chBuf = [] :: callResult list, chClosed = False \<rparr> \<and>
   make_chan (optC (rqConfig sampleRequester)) =
     Returned \<lparr> chCap = 2, chBuf = [] :: bool list, chClosed = False \<rparr> \<and>
   connect sampleRequester noDialEnv = Inl (LibError ''context deadline exceeded'') \<and>
   fst (Run sampleRequester noDialEnv) =
     Returned (None, Some (LibError ''context deadline exceeded'')) \<and>
   evlog (snd (Run sampleRequester noDialEnv)) =
     [EvMakeResults 2000, EvMakeStopCh 2, EvConnect (Some (LibError ''context deadline exceeded''))]"
proof -
  have m1: "make_chan (min_go (int64 (optC (rqConfig sampleRequester) * 1000)) maxResult) =
     Returned \<lparr> chCap = 2000, chBuf = [] :: callResult list, chClosed = False \<rparr>"
    by (simp add: eval_defs sample_ghz_defs)
  have m2: "make_chan (optC (rqConfig sampleRequester)) =
     Returned \<lparr> chCap = 2, chBuf = [] :: bool list, chClosed = False \<rparr>"
    by (simp add: eval_defs sample_ghz_defs)
  from Run_connect_fails [OF m1 m2 eval_connect_noDial] m1 m2 eval_connect_noDial
  show ?thesis by simp
qed

text \<open>
  C7. On a server stream that opens and that the peer ends with status OK,
  \<open>makeServerStreamingRequest\<close> sends the request with the opening call, receives every
  message of the peer, and stops at the \<open>RecvMsg\<close> that returns \<open>io.EOF\<close>; it returns
  normally. For a server-streaming method whose templates and payload succeed, \<open>makeRequest\<close>
  makes exactly these calls and returns, and the call is recorded once, without an error and
  with status \<open>OK\<close>, after the results recorded before it. A stream that ends with an error
  instead stops at the \<open>RecvMsg\<close> that returns this error, and its status is not \<open>OK\<close>.
\<close>

theorem makeServerStreamingRequest_until_EOF:
  "openErr p = None \<Longrightarrow> final p = None \<Longrightarrow>
     makeServerStreamingRequest p input =
       InvokeRpcServerStream input None #
         map (\<lambda>m. RecvMsg (Inr m)) (incoming p) @ [RecvMsg (Inl EOF)] \<and>
     statusName (rpcEnd p) = ''OK'' \<and>
     (\<forall>w. length (chBuf (results w)) < chCap (results w) \<and> \<not> chClosed (results w) \<longrightarrow>
        statsHandler_End p w =
          (Returned (), w\<lparr>results := (results w)\<lparr>chBuf := chBuf (results w) @
             [\<lparr> crErr = None, crStatus = ''OK'', crDuration = elapsed p \<rparr>]\<rparr>\<rparr>)) \<and>
     (\<forall>b ev wid w d md streamInput.
        \<not> IsClientStreaming (rqMtd b) \<and> IsServerStreaming (rqMtd b) \<and>
        dataResult (calls ev (int64 (reqCounter w + 1))) = Inr d \<and>
        mdResult (calls ev (int64 (reqCounter w + 1))) = Inr md \<and>
        payloadResult (calls ev (int64 (reqCounter w + 1))) = Inr (input, streamInput) \<and>
        peer (calls ev (int64 (reqCounter w + 1))) = p \<and>
        reporterRunning w \<and> \<not> chClosed (results w) \<and>
        length (chBuf (results w)) \<le> chCap (results w) \<longrightarrow>
        (\<exists>w'. makeRequest b ev wid w = (Returned (), w') \<and>
           evlog w' = evlog w @
             [EvMakeRequest wid (int64 (reqCounter w + 1)),
              EvRPC (int64 (reqCounter w + 1))
                (case md of None \<Rightarrow> None | Some kv \<Rightarrow> if 0 < length kv then Some kv else None)
                (InvokeRpcServerStream input None #
                   map (\<lambda>m. RecvMsg (Inr m)) (incoming p) @ [RecvMsg (Inl EOF)])] \<and>
           details w' @ chBuf (results w') =
             details w @ chBuf (results w) @
               [\<lparr> crErr = None, crStatus = ''OK'', crDuration = elapsed p \<rparr>])) \<and>
     (\<forall>q e. openErr q = None \<and> final q = Some e \<and> e \<noteq> EOF \<longrightarrow>
        last (makeServerStreamingRequest q input) = RecvMsg (Inl e) \<and>
        rpcEnd q = Some e \<and> statusName (rpcEnd q) \<noteq> ''OK'')"
proof -
  assume p: "openErr p = None" "final p = None"
  have t: "makeServerStreamingRequest p input =
       InvokeRpcServerStream input None #
         map (\<lambda>m. RecvMsg (Inr m)) (incoming p) @ [RecvMsg (Inl EOF)]"
    using p by (simp add: makeServerStreamingRequest_def recvLoop_eq terminal_def)
  have e: "rpcEnd p = None" using p by (simp add: rpcEnd_def)
  have s: "statusName (rpcEnd p) = ''OK''" by (simp add: e statusName_def)
  have h: "\<forall>w. length (chBuf (results w)) < chCap (results w) \<and> \<not> chClosed (results w) \<longrightarrow>
        statsHandler_End p w =
          (Returned (), w\<lparr>results := (results w)\<lparr>chBuf := chBuf (results w) @
             [\<lparr> crErr = None, crStatus = ''OK'', crDuration = elapsed p \<rparr>]\<rparr>\<rparr>)"
    by (simp add: e statusName_def statsHandler_End_def chan_send_def Let_def)
  have o: "\<forall>b ev wid w d md streamInput.
        \<not> IsClientStreaming (rqMtd b) \<and> IsServerStreaming (rqMtd b) \<and>
        dataResult (calls ev (int64 (reqCounter w + 1))) = Inr d \<and>
        mdResult (calls ev (int64 (reqCounter w + 1))) = Inr md \<and>
        payloadResult (calls ev (int64 (reqCounter w + 1))) = Inr (input, streamInput) \<and>
        peer (calls ev (int64 (reqCounter w + 1))) = p \<and>
        reporterRunning w \<and> \<not> chClosed (results w) \<and>
        length (chBuf (results w)) \<le> chCap (results w) \<longrightarrow>
        (\<exists>w'. makeRequest b ev wid w = (Returned (), w') \<and>
           evlog w' = evlog w @
             [EvMakeRequest wid (int64 (reqCounter w + 1)),
              EvRPC (int64 (reqCounter w + 1))
                (case md of None \<Rightarrow> None | Some kv \<Rightarrow> if 0 < length kv then Some kv else None)
                (InvokeRpcServerStream input None #
                   map (\<lambda>m. RecvMsg (Inr m)) (incoming p) @ [RecvMsg (Inl EOF)])] \<and>
           details w' @ chBuf (results w') =
             details w @ chBuf (results w) @
               [\<lparr> crErr = None, crStatus = ''OK'', crDuration = elapsed p \<rparr>])"
  proof (intro allI impI)
    fix b :: Requester and ev :: env and wid and w :: world and d md streamInput
    assume a: "\<not> IsClientStreaming (rqMtd b) \<and> IsServerStreaming (rqMtd b) \<and>
        dataResult (calls ev (int64 (reqCounter w + 1))) = Inr d \<and>
        mdResult (calls ev (int64 (reqCounter w + 1))) = Inr md \<and>
        payloadResult (calls ev (int64 (reqCounter w + 1))) = Inr (input, streamInput) \<and>
        peer (calls ev (int64 (reqCounter w + 1))) = p \<and>
        reporterRunning w \<and> \<not> chClosed (results w) \<and>
        length (chBuf (results w)) \<le> chCap (results w)"
    then have pe: "peer (calls ev (int64 (reqCounter w + 1))) = p" by simp
    from a have "\<exists>w'. makeRequest b ev wid w = (Returned (), w') \<and>
      evlog w' = evlog w @
        [EvMakeRequest wid (int64 (reqCounter w + 1)),
         EvRPC (int64 (reqCounter w + 1))
           (case md of None \<Rightarrow> None | Some kv \<Rightarrow> if 0 < length kv then Some kv else None)
           (makeServerStreamingRequest (peer (calls ev (int64 (reqCounter w + 1)))) input)] \<and>
      details w' @ chBuf (results w') =
        details w @ chBuf (results w) @
          [\<lparr> crErr = rpcEnd (peer (calls ev (int64 (reqCounter w + 1)))),
             crStatus = statusName (rpcEnd (peer (calls ev (int64 (reqCounter w + 1))))),
             crDuration = elapsed (peer (calls ev (int64 (reqCounter w + 1)))) \<rparr>]"
      by (intro makeRequest_serverStream [where d = d and streamInput = streamInput]) simp_all
    then show "\<exists>w'. makeRequest b ev wid w = (Returned (), w') \<and>
           evlog w' = evlog w @
             [EvMakeRequest wid (int64 (reqCounter w + 1)),
              EvRPC (int64 (reqCounter w + 1))
                (case md of None \<Rightarrow> None | Some kv \<Rightarrow> if 0 < length kv then Some kv else None)
                (InvokeRpcServerStream input None #
                   map (\<lambda>m. RecvMsg (Inr m)) (incoming p) @ [RecvMsg (Inl EOF)])] \<and>
           details w' @ chBuf (results w') =
             details w @ chBuf (results w) @
               [\<lparr> crErr = None, crStatus = ''OK'', crDuration = elapsed p \<rparr>]"
      unfolding pe t e by (simp add: statusName_def)
  qed
  have x: "\<forall>q e. openErr q = None \<and> final q = Some e \<and> e \<noteq> EOF \<longrightarrow>
        last (makeServerStreamingRequest q input) = RecvMsg (Inl e) \<and>
        rpcEnd q = Some e \<and> statusName (rpcEnd q) \<noteq> ''OK''"
    by (auto simp: makeServerStreamingRequest_def recvLoop_eq terminal_def rpcEnd_def
        statusName_error)
  from t s h o x show ?thesis by blast
qed

theorem makeServerStreamingRequest_until_EOF_witness:
  "openErr streamPeer = None \<and> final streamPeer = None \<and>
   makeServerStreamingRequest streamPeer (Some (Message ''Bob'')) =
     [InvokeRpcServerStream (Some (Message ''Bob'')) None, RecvMsg (Inr (Message ''a'')),
      RecvMsg (Inr (Message ''b'')), RecvMsg (Inr (Message ''c'')), RecvMsg (Inl EOF)] \<and>
   \<not> IsClientStreaming (rqMtd streamRequester) \<and> IsServerStreaming (rqMtd streamRequester) \<and>
   calls streamEnv (int64 (reqCounter sampleWorld + 1)) = streamCall \<and>
   peer streamCall = streamPeer \<and>
   reporterRunning sampleWorld \<and> \<not> chClosed (results sampleWorld) \<and>
   length (chBuf (results sampleWorld)) \<le> chCap (results sampleWorld) \<and>
   fst (makeRequest streamRequester streamEnv 0 sampleWorld) = Returned () \<and>
   details (snd (makeRequest streamRequester streamEnv 0 sampleWorld)) @
     chBuf (results (snd (makeRequest streamRequester streamEnv 0 sampleWorld))) = [okResult] \<and>
   fst (Run streamRequester streamEnv) =
     Returned (Some \<lparr> repCount = 1, repTotal = 1000000000, repDetails = [okResult] \<rparr>, None)"
proof -
  have p: "openErr streamPeer = None" "final streamPeer = None"
    by (simp_all add: sample_ghz_defs)
  have c: "calls streamEnv (int64 (reqCounter sampleWorld + 1)) = streamCall"
    "peer streamCall = streamPeer"
    "dataResult streamCall = Inr (JObj [(''name'', JStr ''Bob'')])"
    "mdResult streamCall = Inr None"
    "payloadResult streamCall = Inr (Some (Message ''Bob''), Some [Message ''Bob''])"
    by (simp_all add: sample_ghz_defs stream_defs)
  have m: "\<not> IsClientStreaming (rqMtd streamRequester)" "IsServerStreaming (rqMtd streamRequester)"
    by (simp_all add: sample_ghz_defs stream_defs)
  have w: "reporterRunning sampleWorld" "\<not> chClosed (results sampleWorld)"
    "length (chBuf (results sampleWorld)) \<le> chCap (results sampleWorld)"
    "details sampleWorld = []" "chBuf (results sampleWorld) = []"
    by (simp_all add: sample_ghz_defs world0_def)
  have e: "elapsed streamPeer = 10000000" "incoming streamPeer = [Message ''a'', Message ''b'', Message ''c'']"
    by (simp_all add: sample_ghz_defs)
  note t = makeServerStreamingRequest_until_EOF [OF p, of "Some (Message ''Bob'')"]
  from t have tr: "makeServerStreamingRequest streamPeer (Some (Message ''Bob'')) =
     [InvokeRpcServerStream (Some (Message ''Bob'')) None, RecvMsg (Inr (Message ''a'')),
      RecvMsg (Inr (Message ''b'')), RecvMsg (Inr (Message ''c'')), RecvMsg (Inl EOF)]"
    by (simp add: e)
  note o = t [THEN conjunct2, THEN conjunct2, THEN conjunct2, THEN conjunct1, rule_format,
      of streamRequester streamEnv sampleWorld "JObj [(''name'', JStr ''Bob'')]" None
         "Some [Message ''Bob'']" 0]
  have "\<exists>w'. makeRequest streamRequester streamEnv 0 sampleWorld = (Returned (), w') \<and>
      details w' @ chBuf (results w') = [okResult]"
    using o m w by (simp add: c e okResult_def) blast
  then have r: "fst (makeRequest streamRequester streamEnv 0 sampleWorld) = Returned ()"
    "details (snd (makeRequest streamRequester streamEnv 0 sampleWorld)) @
       chBuf (results (snd (makeRequest streamRequester streamEnv 0 sampleWorld))) = [okResult]"
    by auto
  from p tr m c(1,2) w(1-3) r eval_Run_stream show ?thesis by simp
qed

text \<open>
  C8. For a concurrency \<open>C \<ge> 0\<close> whose product \<open>C * 1000\<close> fits an \<open>int\<close> (with any other,
  that product wraps around or a \<open>make\<close> panics), the result channel of \<open>Run\<close> has capacity
  \<open>min (C * 1000) 1000000\<close>, whatever the run does afterwards. A send to a full channel blocks: the stats handler blocks with the
  state unchanged while no reporter receives, and whenever its send goes through, the
  results consumed and buffered so far are all still there, followed by the new one.
\<close>

theorem Run_results_capacity:
  "0 \<le> optC (rqConfig b) \<Longrightarrow> optC (rqConfig b) * 1000 < 2 ^ 63 \<Longrightarrow>
     chCap (results (snd (Run b ev))) = nat (min (optC (rqConfig b) * 1000) 1000000) \<and>
     (\<forall>ch v. length (chBuf ch) = chCap ch \<and> \<not> chClosed ch \<longrightarrow>
        chan_send ch v = (Blocked :: callResult chan outcome)) \<and>
     (\<forall>p w. length (chBuf (results w)) = chCap (results w) \<and> \<not> chClosed (results w) \<and>
        \<not> reporterRunning w \<longrightarrow> statsHandler_End p w = (Blocked, w)) \<and>
     (\<forall>p w u w'. statsHandler_End p w = (Returned u, w') \<and>
        length (chBuf (results w)) \<le> chCap (results w) \<longrightarrow>
        details w' @ chBuf (results w') =
          details w @ chBuf (results w) @
            [\<lparr> crErr = rpcEnd p, crStatus = statusName (rpcEnd p), crDuration = elapsed p \<rparr>])"
proof (intro conjI allI impI)
  assume "0 \<le> optC (rqConfig b)" "optC (rqConfig b) * 1000 < 2 ^ 63"
  then show "chCap (results (snd (Run b ev))) = nat (min (optC (rqConfig b) * 1000) 1000000)"
    by (rule Run_chCap)
next
  fix ch :: "callResult chan" and v
  assume "length (chBuf ch) = chCap ch \<and> \<not> chClosed ch"
  then show "chan_send ch v = Blocked" by (simp add: chan_send_def)
next
  fix p and w :: world
  assume "length (chBuf (results w)) = chCap (results w) \<and> \<not> chClosed (results w) \<and>
        \<not> reporterRunning w"
  then show "statsHandler_End p w = (Blocked, w)"
    by (simp add: statsHandler_End_def chan_send_def Let_def)
next
  fix p u and w w' :: world
  assume "statsHandler_End p w = (Returned u, w') \<and>
        length (chBuf (results w)) \<le> chCap (results w)"
  then show "details w' @ chBuf (results w') =
          details w @ chBuf (results w) @
            [\<lparr> crErr = rpcEnd p, crStatus = statusName (rpcEnd p), crDuration = elapsed p \<rparr>]"
    using statsHandler_End_keeps by blast
qed

theorem Run_results_capacity_witness:
  "0 \<le> optC (rqConfig sampleRequester) \<and> optC (rqConfig sampleRequester) * 1000 < 2 ^ 63 \<and>
   chCap (results (snd (Run sampleRequester sampleEnv))) = 2000 \<and>
   chan_send \<lparr> chCap = 1, chBuf = [okResult], chClosed = False \<rparr> okResult = Blocked"
  using Run_results_capacity [of sampleRequester sampleEnv]
  by (simp add: sample_ghz_defs)

end
